theory Spec2Isabelle
  imports Complex_Main
begin

section \<open>Scalars of the symbolic backend\<close>

text \<open>
  The quantum numbers and coefficients of \<^verbatim>\<open>sympy/physics/quantum/spin.py\<close> are
  expressions of the symbolic backend. An evaluated numeric quantum number is an exact
  rational \<open>Num r\<close>; everything that contains a free symbol is kept as a term.
  \<open>Hbar\<close> is the constant \<^verbatim>\<open>hbar\<close>, \<open>Sqrt\<close> the exact radical and \<open>CG\<close> an
  unevaluated Clebsch-Gordan coefficient.
\<close>

datatype sexpr =
    Num rat
  | Sym string
  | Hbar
  | Add sexpr sexpr
  | Mul sexpr sexpr
  | Sqrt sexpr
  | CG sexpr sexpr sexpr sexpr sexpr sexpr

text \<open>\<^verbatim>\<open>x.is_number\<close> (and \<^verbatim>\<open>x.is_Number\<close>) on an evaluated quantum number.\<close>

fun is_number :: "sexpr \<Rightarrow> bool" where
  "is_number (Num r) = True"
| "is_number e = False"

text \<open>The value of a numeric expression; only read under \<open>is_number\<close>.\<close>

fun num :: "sexpr \<Rightarrow> rat" where
  "num (Num r) = r"
| "num e = 0"

text \<open>
  Modelled from the spec: the arithmetic backend adds and multiplies exact numbers and
  builds a term when an operand is symbolic (\<^verbatim>\<open>a + b\<close>, \<^verbatim>\<open>a * b\<close>).
\<close>

fun sadd :: "sexpr \<Rightarrow> sexpr \<Rightarrow> sexpr" where
  "sadd (Num a) (Num b) = Num (a + b)"
| "sadd x y = Add x y"

fun smul :: "sexpr \<Rightarrow> sexpr \<Rightarrow> sexpr" where
  "smul (Num a) (Num b) = Num (a * b)"
| "smul x y = Mul x y"

definition ssub :: "sexpr \<Rightarrow> sexpr \<Rightarrow> sexpr" where
  "ssub x y = sadd x (smul (Num (- 1)) y)"

text \<open>\<^verbatim>\<open>Add(*xs)\<close>: the empty sum is 0, a single argument is returned as it is.\<close>

fun Add_list :: "sexpr list \<Rightarrow> sexpr" where
  "Add_list [] = Num 0"
| "Add_list (x # xs) = foldl sadd x xs"

text \<open>Python's \<^verbatim>\<open>int(x)\<close> on a rational truncates towards zero.\<close>

definition py_int :: "rat \<Rightarrow> int" where
  "py_int r = (if 0 \<le> r then \<lfloor>r\<rfloor> else \<lceil>r\<rceil>)"

section \<open>Errors\<close>

text \<open>
  A raised exception is a value: the exception class, the message template of the
  source and the integers substituted for its \<^verbatim>\<open>%d\<close> fields. A \<open>NameError\<close> carries
  the undefined name. The \<^verbatim>\<open>TypeError\<close> that \<^verbatim>\<open>range\<close> raises on a bound that is not an
  integer has no message in the source: it carries \<open>''range''\<close>.
\<close>

datatype error =
    TypeError string "int list"
  | ValueError string "int list"
  | NameError string
  | IndexError
  | Unmodelled

text \<open>
  \<open>Unmodelled\<close> is not an exception of the program: it marks the inputs on which the
  source hands a value to the backend whose treatment is outside this development
  (a symbolic argument of \<^verbatim>\<open>range\<close>, the factorial of a number that is not a
  non-negative integer).
\<close>

text \<open>Sequencing of computations that may raise.\<close>

fun ebind :: "error + 'a \<Rightarrow> ('a \<Rightarrow> error + 'b) \<Rightarrow> error + 'b" where
  "ebind (Inl e) f = Inl e"
| "ebind (Inr x) f = f x"

fun emap :: "('a \<Rightarrow> error + 'b) \<Rightarrow> 'a list \<Rightarrow> error + 'b list" where
  "emap f [] = Inr []"
| "emap f (x # xs) = ebind (f x) (\<lambda>y. ebind (emap f xs) (\<lambda>ys. Inr (y # ys)))"

text \<open>
  Python list reads and writes \<^verbatim>\<open>xs[i]\<close>, \<^verbatim>\<open>xs[i] = v\<close>: a negative index counts
  from the end, an index out of range raises \<^verbatim>\<open>IndexError\<close>. \<^verbatim>\<open>min\<close> of an empty
  list raises \<^verbatim>\<open>ValueError\<close>.
\<close>

definition py_get :: "'a list \<Rightarrow> int \<Rightarrow> error + 'a" where
  "py_get xs i =
    (let n = int (length xs); k = (if i < 0 then n + i else i)
     in if 0 \<le> k \<and> k < n then Inr (xs ! nat k) else Inl IndexError)"

definition py_set :: "'a list \<Rightarrow> int \<Rightarrow> 'a \<Rightarrow> error + 'a list" where
  "py_set xs i v =
    (let n = int (length xs); k = (if i < 0 then n + i else i)
     in if 0 \<le> k \<and> k < n then Inr (xs[nat k := v]) else Inl IndexError)"

fun py_min :: "int list \<Rightarrow> error + int" where
  "py_min [] = Inl (ValueError ''min() arg is an empty sequence'' [])"
| "py_min (x # xs) = Inr (foldl min x xs)"

section \<open>Spin states\<close>

datatype spin_class = JxKet | JxBra | JyKet | JyBra | JzKet | JzBra

text \<open>An uncoupled state \<^verbatim>\<open>cls(j, m)\<close>: its class and its label \<open>(j, m)\<close>.\<close>

datatype spin_state = State (state_class: spin_class) (state_j: sexpr) (state_m: sexpr)

text \<open>
  \<^verbatim>\<open>SpinState.__new__(cls, j, m)\<close>: four checks in the order of the source, each guarded
  by \<^verbatim>\<open>is_number\<close> of the arguments it reads.
\<close>

definition SpinState_new :: "spin_class \<Rightarrow> sexpr \<Rightarrow> sexpr \<Rightarrow> error + spin_state" where
  "SpinState_new c j m =
    (if is_number j \<and> \<not> (2 * num j = of_int (py_int (2 * num j)))
       then Inl (ValueError ''j must be integer or half-integer, got %s'' [])
     else if is_number m \<and> \<not> (2 * num m = of_int (py_int (2 * num m)))
       then Inl (ValueError ''m must be integer or half-integer, got %s'' [])
     else if is_number j \<and> num j < 0
       then Inl (ValueError ''j must be < 0'' [])
     else if is_number j \<and> is_number m \<and> \<bar>num m\<bar> > num j
       then Inl (ValueError ''Allowed values for m are -j <= m <= j'' [])
     else Inr (State c j m))"

section \<open>Ladder operators\<close>

text \<open>
  The result of applying an operator to a ket: \<^verbatim>\<open>S.Zero\<close> or a scalar times a state.
\<close>

datatype qexpr = QZero | QScaled sexpr spin_state

text \<open>
  \<^verbatim>\<open>JplusOp._apply_operator_JzKet\<close> and \<^verbatim>\<open>JminusOp._apply_operator_JzKet\<close>. The new
  ket \<^verbatim>\<open>JzKet(j, m+1)\<close> goes through the constructor, whose error propagates.
\<close>

definition Jplus_apply_JzKet :: "spin_state \<Rightarrow> error + qexpr" where
  "Jplus_apply_JzKet ket =
    (let j = state_j ket; m = state_m ket in
     if is_number m \<and> is_number j \<and> num m \<ge> num j then Inr QZero
     else (case SpinState_new JzKet j (sadd m (Num 1)) of
             Inl e \<Rightarrow> Inl e
           | Inr k \<Rightarrow>
               Inr (QScaled
                 (smul Hbar (Sqrt (ssub (smul j (sadd j (Num 1))) (smul m (sadd m (Num 1))))))
                 k)))"

definition Jminus_apply_JzKet :: "spin_state \<Rightarrow> error + qexpr" where
  "Jminus_apply_JzKet ket =
    (let j = state_j ket; m = state_m ket in
     if is_number m \<and> is_number j \<and> num m \<le> - num j then Inr QZero
     else (case SpinState_new JzKet j (ssub m (Num 1)) of
             Inl e \<Rightarrow> Inl e
           | Inr k \<Rightarrow>
               Inr (QScaled
                 (smul Hbar (Sqrt (ssub (smul j (sadd j (Num 1))) (smul m (ssub m (Num 1))))))
                 k)))"

section \<open>Wigner D-function\<close>

text \<open>
  \<^verbatim>\<open>m_values(j)\<close>: the size \<open>2j+1\<close> and the list \<open>j, j-1, ..., -j\<close>; it raises unless
  \<open>2j+1\<close> is a positive integer.
\<close>

definition m_values :: "rat \<Rightarrow> error + (int \<times> rat list)" where
  "m_values j =
    (let size = 2 * j + 1 in
     if \<not> (size = of_int \<lfloor>size\<rfloor>) \<or> \<not> size > 0
       then Inl (ValueError ''Only integer or half-integer values allowed for j, got: : %r'' [])
     else Inr (\<lfloor>size\<rfloor>, map (\<lambda>i. j - of_nat i) [0..<nat (py_int (2 * j + 1))]))"

text \<open>An Euler angle: a real number or a free symbol.\<close>

datatype angle = Angle real | AngleSym string

text \<open>\<^verbatim>\<open>WignerD(j, m, mp, alpha, beta, gamma)\<close>, unevaluated.\<close>

datatype wignerd =
  WignerD (wd_j: sexpr) (wd_m: sexpr) (wd_mp: sexpr)
          (wd_alpha: angle) (wd_beta: angle) (wd_gamma: angle)

text \<open>
  The binomials and factorials of \<^verbatim>\<open>_eval_wignerd\<close> are those of natural numbers when
  \<open>j+m\<close>, \<open>j-m\<close>, \<open>j+mp\<close> and \<open>j-mp\<close> are non-negative integers.
\<close>

definition nonneg_int :: "rat \<Rightarrow> bool" where
  "nonneg_int x = (0 \<le> x \<and> x = of_int \<lfloor>x\<rfloor>)"

definition wigner_domain :: "rat \<Rightarrow> rat \<Rightarrow> rat \<Rightarrow> bool" where
  "wigner_domain j m mp =
    (nonneg_int (j + m) \<and> nonneg_int (j - m) \<and> nonneg_int (j + mp) \<and> nonneg_int (j - mp))"

text \<open>
  The branch \<^verbatim>\<open>beta == pi/2\<close> of \<^verbatim>\<open>_eval_wignerd\<close>: the sum over \<open>k\<close> in
  \<^verbatim>\<open>range(2*j+1)\<close>, skipping \<open>k > j+mp\<close>, \<open>k > j-m\<close> and \<open>k < mp-m\<close>, times
  \<^verbatim>\<open>(-1)**(m-mp) / 2**j * sqrt(...)\<close>.
\<close>

definition wigner_d_half :: "rat \<Rightarrow> rat \<Rightarrow> rat \<Rightarrow> real" where
  "wigner_d_half j m mp =
    (\<Sum>k\<leftarrow>[0..<nat \<lfloor>2 * j + 1\<rfloor>].
        if of_nat k > j + mp \<or> of_nat k > j - m \<or> of_nat k < mp - m then 0
        else (- 1) ^ k * real (nat \<lfloor>j + mp\<rfloor> choose k)
               * real (nat \<lfloor>j - mp\<rfloor> choose nat \<lfloor>of_nat k + m - mp\<rfloor>))
    * ((- 1) powi \<lfloor>m - mp\<rfloor> / 2 powr (of_rat j)
       * sqrt (fact (nat \<lfloor>j + m\<rfloor>) * fact (nat \<lfloor>j - m\<rfloor>)
               / (fact (nat \<lfloor>j + mp\<rfloor>) * fact (nat \<lfloor>j - mp\<rfloor>))))"

text \<open>
  \<^verbatim>\<open>WignerD._eval_wignerd\<close>, reached by \<^verbatim>\<open>doit\<close>. The check on \<open>j\<close> comes first.
  In the general branch the two inner calls \<^verbatim>\<open>Rotation.d(j, m, mpp, pi/2).doit()\<close> have
  \<open>alpha = gamma = 0\<close>, so each is the value of the \<open>pi/2\<close> branch.
\<close>

definition eval_wignerd :: "wignerd \<Rightarrow> error + complex" where
  "eval_wignerd w =
    (if \<not> is_number (wd_j w)
       then Inl (ValueError ''j parameter must be numerical to evaluate, got %s'' [])
     else
       (case (wd_m w, wd_mp w, wd_alpha w, wd_beta w, wd_gamma w) of
          (Num m, Num mp, Angle alpha, Angle beta, Angle gamma) \<Rightarrow>
            (let j = num (wd_j w) in
             if \<not> wigner_domain j m mp then Inl Unmodelled
             else
               ebind
                 (if beta = pi / 2 then Inr (complex_of_real (wigner_d_half j m mp))
                  else ebind (m_values j) (\<lambda>(size, mvals).
                    Inr ((\<Sum>mpp\<leftarrow>mvals.
                            complex_of_real (wigner_d_half j m mpp)
                            * (complex_of_real (cos (- (of_rat mpp) * beta))
                               + \<i> * complex_of_real (sin (- (of_rat mpp) * beta)))
                            * complex_of_real (wigner_d_half j mpp (- mp)))
                         * \<i> ^ nat \<lfloor>2 * j - m - mp\<rfloor> * (- 1) powi \<lfloor>2 * m\<rfloor>)))
                 (\<lambda>r. Inr (r * exp (- \<i> * of_rat m * complex_of_real alpha)
                            * exp (- \<i> * of_rat mp * complex_of_real gamma))))
        | _ \<Rightarrow> Inl Unmodelled))"

definition doit :: "wignerd \<Rightarrow> error + complex" where
  "doit w = eval_wignerd w"

section \<open>Coupled states\<close>

datatype coupled_spin_class =
  JxKetCoupled | JxBraCoupled | JyKetCoupled | JyBraCoupled | JzKetCoupled | JzBraCoupled

fun coupled_class :: "spin_class \<Rightarrow> coupled_spin_class" where
  "coupled_class JxKet = JxKetCoupled"
| "coupled_class JxBra = JxBraCoupled"
| "coupled_class JyKet = JyKetCoupled"
| "coupled_class JyBra = JyBraCoupled"
| "coupled_class JzKet = JzKetCoupled"
| "coupled_class JzBra = JzBraCoupled"

fun uncoupled_class :: "coupled_spin_class \<Rightarrow> spin_class" where
  "uncoupled_class JxKetCoupled = JxKet"
| "uncoupled_class JxBraCoupled = JxBra"
| "uncoupled_class JyKetCoupled = JyKet"
| "uncoupled_class JyBraCoupled = JyBra"
| "uncoupled_class JzKetCoupled = JzKet"
| "uncoupled_class JzBraCoupled = JzBra"

text \<open>
  A coupled state: its class and its label \<open>(j, m, jn, coupled_jn, coupled_n)\<close>. An
  entry of \<open>coupled_n\<close> is the pair of index lists of the two spaces a merge combines.
\<close>

datatype coupled_state =
  CoupledState (cs_class: coupled_spin_class) (cs_j: sexpr) (cs_m: sexpr) (cs_jn: "sexpr list")
               (cs_coupled_jn: "sexpr list") (cs_coupled_n: "(int list \<times> int list) list")

text \<open>
  \<^verbatim>\<open>_build_coupled(jcoupling, length)\<close>: the loop over the triples \<open>(n1, n2, j_new)\<close>,
  threading \<open>n_list\<close>.
\<close>

fun build_coupled_loop ::
  "(int \<times> int \<times> sexpr) list \<Rightarrow> int list list
     \<Rightarrow> error + ((int list \<times> int list) list \<times> sexpr list)" where
  "build_coupled_loop [] n_list = Inr ([], [])"
| "build_coupled_loop ((n1, n2, j_new) # rest) n_list =
     ebind (py_get n_list (n1 - 1)) (\<lambda>a.
     ebind (py_get n_list (n2 - 1)) (\<lambda>b.
     ebind (py_get (sort (a @ b)) 0) (\<lambda>s0.
     ebind (py_set n_list (s0 - 1) (sort (a @ b))) (\<lambda>n_list'.
     ebind (build_coupled_loop rest n_list') (\<lambda>(coupled_n, coupled_jn).
       Inr ((a, b) # coupled_n, j_new # coupled_jn))))))"

definition build_coupled ::
  "(int \<times> int \<times> sexpr) list \<Rightarrow> nat
     \<Rightarrow> error + ((int list \<times> int list) list \<times> sexpr list)" where
  "build_coupled jcoupling len =
     build_coupled_loop jcoupling (map (\<lambda>n. [int n + 1]) [0..<len])"

text \<open>
  \<^verbatim>\<open>CoupledSpinState.__new__(cls, j, m, jn, jcoupling=None)\<close>. The elements of
  \<open>jcoupling\<close> are triples by their type. The constructor calls \<^verbatim>\<open>State.__new__\<close>, not
  \<^verbatim>\<open>SpinState.__new__\<close>: \<open>j\<close> and \<open>m\<close> are not validated.
\<close>

definition CoupledSpinState_new ::
  "coupled_spin_class \<Rightarrow> sexpr \<Rightarrow> sexpr \<Rightarrow> sexpr list \<Rightarrow> (int \<times> int \<times> sexpr) list option
     \<Rightarrow> error + coupled_state" where
  "CoupledSpinState_new cls j m jn jcoupling_opt =
    (let jcoupling =
           (case jcoupling_opt of
              None \<Rightarrow> map (\<lambda>n. (1, int n, Add_list (take n jn))) [2..<length jn]
            | Some jc \<Rightarrow> jc)
     in if \<not> (int (length jn) - 2 = int (length jcoupling))
          then Inl (ValueError ''jcoupling must have length of %d, got %d''
                      [int (length jn) - 1, int (length jcoupling)])
        else ebind (build_coupled jcoupling (length jn)) (\<lambda>(coupled_n, coupled_jn).
               Inr (CoupledState cls j m jn coupled_jn coupled_n)))"

section \<open>Coupling of a tensor product\<close>

text \<open>
  The default \<open>jcoupling_list\<close> of \<^verbatim>\<open>couple\<close>:
  \<^verbatim>\<open>[(1, n+1) for n in range(1, len(states)-1)]\<close>.
\<close>

definition default_jcoupling_list :: "nat \<Rightarrow> (int \<times> int) list" where
  "default_jcoupling_list N = map (\<lambda>n. (1, int n + 1)) [1..<N - 1]"

text \<open>
  The check that every space is referenced by its smallest index: \<open>j_test\<close> marks the
  larger index of each coupling with \<open>-1\<close>. Python's \<^verbatim>\<open>or\<close> does not read
  \<^verbatim>\<open>j_test[n2-1]\<close> when the first comparison holds.
\<close>

fun j_test_loop :: "int list \<Rightarrow> (int \<times> int) list \<Rightarrow> error + unit" where
  "j_test_loop j_test [] = Inr ()"
| "j_test_loop j_test ((n1, n2) # rest) =
     ebind (py_get j_test (n1 - 1)) (\<lambda>t1.
       if t1 = - 1
         then Inl (ValueError ''Spaces coupling j_n's are referenced by smallest n value'' [])
       else ebind (py_get j_test (n2 - 1)) (\<lambda>t2.
         if t2 = - 1
           then Inl (ValueError ''Spaces coupling j_n's are referenced by smallest n value'' [])
         else ebind (py_set j_test (max n1 n2 - 1) (- 1)) (\<lambda>j_test'.
           j_test_loop j_test' rest)))"

text \<open>
  The loop that builds \<open>coupling_list\<close> from \<open>jcoupling_list\<close>, threading \<open>n_list\<close>;
  it returns the couplings and the final \<open>n_list\<close>.
\<close>

fun coupling_loop ::
  "int list list \<Rightarrow> (int \<times> int) list
     \<Rightarrow> error + ((int list \<times> int list) list \<times> int list list)" where
  "coupling_loop n_list [] = Inr ([], n_list)"
| "coupling_loop n_list ((n1, n2) # rest) =
     ebind (py_get n_list (n1 - 1)) (\<lambda>j1_n.
     ebind (py_get n_list (n2 - 1)) (\<lambda>j2_n.
     ebind (py_set n_list (n1 - 1) (sort (j1_n @ j2_n))) (\<lambda>n_list1.
     ebind (py_set n_list1 (n2 - 1) []) (\<lambda>n_list2.
     ebind (coupling_loop n_list2 rest) (\<lambda>(coupling_list, n_list').
       Inr ((j1_n, j2_n) # coupling_list, n_list'))))))"

text \<open>\<^verbatim>\<open>bs.index(False)\<close>: the first position of \<open>False\<close>, or \<^verbatim>\<open>ValueError\<close>.\<close>

fun index_False :: "bool list \<Rightarrow> error + int" where
  "index_False [] = Inl (ValueError ''False is not in list'' [])"
| "index_False (b # bs) = (if \<not> b then Inr 0 else ebind (index_False bs) (\<lambda>i. Inr (i + 1)))"

text \<open>
  The whole \<open>coupling_list\<close>: the couplings of \<open>jcoupling_list\<close>, then the coupling
  of the first two spaces that are left.
\<close>

definition build_coupling_list ::
  "nat \<Rightarrow> (int \<times> int) list \<Rightarrow> error + (int list \<times> int list) list" where
  "build_coupling_list N jcoupling_list =
     ebind (coupling_loop (map (\<lambda>i. [int i + 1]) [0..<N]) jcoupling_list)
       (\<lambda>(coupling_list, n_list).
     ebind (index_False (map (\<lambda>x. x = []) n_list)) (\<lambda>n1.
     ebind (index_False (drop (nat (n1 + 1)) (map (\<lambda>x. x = []) n_list))) (\<lambda>r.
     ebind (py_get n_list n1) (\<lambda>j1_n.
     ebind (py_get n_list (r + n1 + 1)) (\<lambda>j2_n.
       Inr (coupling_list @ [(j1_n, j2_n)]))))))"

text \<open>
  \<^verbatim>\<open>Mul(*range(n, n+m)) // Mul(*range(1, m+1))\<close>: the number of ways to write \<open>m\<close> as
  an ordered sum of \<open>n\<close> naturals. Both ranges are empty for \<open>m \<le> 0\<close>.
\<close>

definition count :: "nat \<Rightarrow> int \<Rightarrow> int" where
  "count n m = prod_list [int n..int n + m - 1] div prod_list [1..m]"

lemma prod_list_nonneg: "(\<And>x. x \<in> set xs \<Longrightarrow> (0::int) \<le> x) \<Longrightarrow> 0 \<le> prod_list xs"
  by (induction xs) auto

lemma count_nonneg: "0 \<le> count n m"
proof -
  have "0 \<le> prod_list [int n..int n + m - 1]" by (rule prod_list_nonneg) auto
  moreover have "0 \<le> prod_list [1..m]" by (rule prod_list_nonneg) auto
  ultimately show ?thesis unfolding count_def by (simp only: div_int_pos_iff) simp
qed

text \<open>
  The inner \<^verbatim>\<open>while\<close> loop that finds one entry of \<open>diff_list\<close>: it returns the
  final \<open>m\<close> and \<open>config_offset\<close>.
\<close>

function decode_while :: "int \<Rightarrow> nat \<Rightarrow> int \<Rightarrow> int \<Rightarrow> int \<times> int" where
  "decode_while config_num n1 m config_offset =
     (if config_num \<ge> count n1 m + config_offset
      then decode_while config_num n1 (m - 1) (config_offset + count n1 m)
      else (m, config_offset))"
  by pat_completeness auto
termination
proof (relation "measure (\<lambda>(c, n1, m, off). nat (c - off) + nat m)", goal_cases)
  case 1
  then show ?case by simp
next
  case (2 c n1 m off)
  have nn: "0 \<le> count n1 m" by (rule count_nonneg)
  have "nat (c - (off + count n1 m)) + nat (m - 1) < nat (c - off) + nat m"
  proof (cases "m \<le> 0")
    case True
    then have "[int n1..int n1 + m - 1] = []" "[1..m] = []" by simp_all
    then have "count n1 m = 1" by (simp only: count_def prod_list.Nil) simp
    with 2 True show ?thesis by linarith
  next
    case False
    with 2 nn show ?thesis by linarith
  qed
  then show ?case by (simp only: in_measure prod.case)
qed

declare decode_while.simps [simp del]

text \<open>
  The \<^verbatim>\<open>for k in range(n)\<close> loop around it: entry \<open>k\<close> of \<open>diff_list\<close> is
  \<open>prev - m\<close>.
\<close>

fun decode_for :: "int \<Rightarrow> nat \<Rightarrow> nat list \<Rightarrow> int \<Rightarrow> int \<Rightarrow> int list" where
  "decode_for config_num n [] m config_offset = []"
| "decode_for config_num n (k # ks) m config_offset =
     (case decode_while config_num (n - k - 1) m config_offset of
        (m', config_offset') \<Rightarrow> (m - m') # decode_for config_num n ks m' config_offset')"

definition decode_config :: "int \<Rightarrow> nat \<Rightarrow> int \<Rightarrow> int list" where
  "decode_config config_num n diff = decode_for config_num n [0..<n] diff 0"


text \<open>
  The Clebsch-Gordan evaluator \<^verbatim>\<open>CG(j1, m1, j2, m2, j3, m3).doit()\<close> belongs to another
  module: it is a parameter \<open>cg\<close> of the numeric coupling, an exact real for every six
  numbers.
\<close>

type_synonym cg_fun = "rat \<Rightarrow> rat \<Rightarrow> rat \<Rightarrow> rat \<Rightarrow> rat \<Rightarrow> rat \<Rightarrow> real"

type_synonym cg_term = "rat \<times> rat \<times> rat \<times> rat \<times> rat \<times> rat"

text \<open>
  The loop over \<^verbatim>\<open>zip(coupling_list, diff_list)\<close> that determines one term: it threads
  \<open>coupled_j\<close> and collects \<open>cg_terms\<close> and \<open>jcoupling\<close>. \<open>mn\<close> holds the \<open>m\<close> of the
  states.
\<close>

fun couple_terms ::
  "rat list \<Rightarrow> (int list \<times> int list) list \<Rightarrow> int list \<Rightarrow> rat list
     \<Rightarrow> error + (cg_term list \<times> (int \<times> int \<times> rat) list)" where
  "couple_terms mn ((j1_n, j2_n) # rest) (diff # diff_rest) coupled_j =
     ebind (py_min j1_n) (\<lambda>min1.
     ebind (py_get coupled_j (min1 - 1)) (\<lambda>j1.
     ebind (py_min j2_n) (\<lambda>min2.
     ebind (py_get coupled_j (min2 - 1)) (\<lambda>j2.
     ebind (py_min (j1_n @ j2_n)) (\<lambda>min12.
     ebind (py_set coupled_j (min12 - 1) (j1 + j2 - of_int diff)) (\<lambda>coupled_j'.
     ebind (emap (\<lambda>x. py_get mn (x - 1)) j1_n) (\<lambda>m1s.
     ebind (emap (\<lambda>x. py_get mn (x - 1)) j2_n) (\<lambda>m2s.
     ebind (couple_terms mn rest diff_rest coupled_j') (\<lambda>(cg_terms, jcoupling).
       Inr ((j1, sum_list m1s, j2, sum_list m2s, j1 + j2 - of_int diff,
               sum_list m1s + sum_list m2s) # cg_terms,
            (min1, min2, j1 + j2 - of_int diff) # jcoupling))))))))))"
| "couple_terms mn coupling_list diff_list coupled_j = Inr ([], [])"

text \<open>
  The body of \<^verbatim>\<open>for config_num in range(tot)\<close> once \<open>diff_list\<close> is known: no term
  for a configuration with an entry above its bound in \<open>diff_max\<close>, else the product of
  the Clebsch-Gordan coefficients times the coupled state of the last \<open>j3\<close> and \<open>m3\<close>.
\<close>

definition couple_config_term ::
  "cg_fun \<Rightarrow> coupled_spin_class \<Rightarrow> rat list \<Rightarrow> rat list \<Rightarrow> (int list \<times> int list) list
     \<Rightarrow> rat list \<Rightarrow> int list \<Rightarrow> error + (real \<times> coupled_state) list" where
  "couple_config_term cg cls jn mn coupling_list diff_max diff_list =
    (if list_ex (\<lambda>(d, mx). of_int d > mx) (zip diff_list diff_max) then Inr []
     else ebind (couple_terms mn coupling_list diff_list jn) (\<lambda>(cg_terms, jcoupling).
       (case cg_terms of
          [] \<Rightarrow> Inl (NameError ''j3'')
        | _ \<Rightarrow>
          (case last cg_terms of (j1, m1, j2, m2, j3, m3) \<Rightarrow>
             ebind (CoupledSpinState_new cls (Num j3) (Num m3) (map Num jn)
                      (Some (map (\<lambda>(a, b, j). (a, b, Num j)) (butlast jcoupling))))
               (\<lambda>state.
                 Inr [(prod_list (map (\<lambda>(j1, m1, j2, m2, j3, m3). cg j1 m1 j2 m2 j3 m3)
                                   cg_terms), state)])))))"

text \<open>
  The statement \<^verbatim>\<open>for coupling, diff in zip(coupling_list, diff_list)\<close> that determines a
  term assigns to the name \<open>diff\<close> of the enclosing loop: once it has run, \<open>diff\<close> is the
  last entry of \<open>diff_list\<close> it went through (it does not run for a skipped configuration,
  and assigns nothing when the zip is empty).
\<close>

definition rebound_diff :: "'a list \<Rightarrow> int list \<Rightarrow> int \<Rightarrow> int" where
  "rebound_diff coupling_list diff_list diff =
     (case rev (zip coupling_list diff_list) of
        [] \<Rightarrow> diff
      | (coupling, d) # _ \<Rightarrow> d)"

text \<open>
  The loop \<^verbatim>\<open>for config_num in range(tot)\<close>: every iteration starts from \<^verbatim>\<open>m = diff\<close>
  with the value that \<open>diff\<close> has at that moment, which is the value of the enclosing
  \<^verbatim>\<open>for diff in range(...)\<close> only until the first term has been determined. The
  configurations are decoded from that value; \<open>tot\<close> was computed before the loop.
\<close>

fun couple_config_loop ::
  "cg_fun \<Rightarrow> coupled_spin_class \<Rightarrow> rat list \<Rightarrow> rat list \<Rightarrow> (int list \<times> int list) list
     \<Rightarrow> rat list \<Rightarrow> int list \<Rightarrow> int \<Rightarrow> error + (real \<times> coupled_state) list" where
  "couple_config_loop cg cls jn mn coupling_list diff_max [] diff = Inr []"
| "couple_config_loop cg cls jn mn coupling_list diff_max (config_num # rest) diff =
     (let diff_list = decode_config config_num (length coupling_list) diff in
      ebind (couple_config_term cg cls jn mn coupling_list diff_max diff_list) (\<lambda>ts.
      ebind (couple_config_loop cg cls jn mn coupling_list diff_max rest
               (if list_ex (\<lambda>(d, mx). of_int d > mx) (zip diff_list diff_max) then diff
                else rebound_diff coupling_list diff_list diff)) (\<lambda>tss.
        Inr (ts @ tss))))"

text \<open>
  The numeric branch of \<^verbatim>\<open>couple\<close>: \<open>diff_max\<close>, then the loops over \<open>diff\<close> and
  \<open>config_num\<close>. The result is the list \<open>result\<close> of the terms \<open>coeff * state\<close> in
  the order of the enumeration. \<^verbatim>\<open>range\<close> raises \<^verbatim>\<open>TypeError\<close> on a bound that is not an
  integer.
\<close>

definition couple_numeric ::
  "cg_fun \<Rightarrow> coupled_spin_class \<Rightarrow> rat list \<Rightarrow> rat list \<Rightarrow> (int list \<times> int list) list
     \<Rightarrow> error + (real \<times> coupled_state) list" where
  "couple_numeric cg cls jn mn coupling_list =
     ebind (emap (\<lambda>(a, b).
              ebind (emap (\<lambda>n. ebind (py_get jn (n - 1)) (\<lambda>j.
                                 ebind (py_get mn (n - 1)) (\<lambda>m. Inr (j - m)))) (a @ b))
                (\<lambda>ts. Inr (sum_list ts))) coupling_list) (\<lambda>diff_max.
     ebind (py_get diff_max (- 1)) (\<lambda>top.
       if top + 1 \<noteq> of_int \<lfloor>top + 1\<rfloor> then Inl (TypeError ''range'' [])
       else
         ebind (emap (\<lambda>diff.
                  couple_config_loop cg cls jn mn coupling_list diff_max
                    [0..count (length coupling_list) diff - 1] diff)
                [0..\<lfloor>top + 1\<rfloor> - 1])
           (\<lambda>ts. Inr (concat ts))))"

text \<open>Decimal digits of an index, for the names of the intermediate symbols.\<close>

function show_nat :: "nat \<Rightarrow> string" where
  "show_nat n =
     (if n < 10 then [char_of (48 + n)]
      else show_nat (n div 10) @ [char_of (48 + n mod 10)])"
  by pat_completeness auto
termination
  by (relation "measure id") auto

declare show_nat.simps [simp del]

definition show_int :: "int \<Rightarrow> string" where
  "show_int i = (if i < 0 then CHR ''-'' # show_nat (nat (- i)) else show_nat (nat i))"

text \<open>\<^verbatim>\<open>Mul(*xs)\<close>: the empty product is 1, a single argument is returned as it is.\<close>

fun Mul_list :: "sexpr list \<Rightarrow> sexpr" where
  "Mul_list [] = Num 1"
| "Mul_list (x # xs) = foldl smul x xs"

type_synonym sym_cg_term = "sexpr \<times> sexpr \<times> sexpr \<times> sexpr \<times> sexpr \<times> sexpr"

text \<open>
  The loop of the symbolic branch: the coupled \<open>j3\<close> of a merge is the symbol \<open>j\<close> when
  the merge covers all spaces, else \<open>j\<close> followed by the indices of the merge.
\<close>

fun couple_symbolic_loop ::
  "nat \<Rightarrow> sexpr list \<Rightarrow> (int list \<times> int list) list \<Rightarrow> sexpr list
     \<Rightarrow> error + (sym_cg_term list \<times> (int \<times> int \<times> sexpr) list
                 \<times> (sexpr \<times> sexpr \<times> sexpr) list)" where
  "couple_symbolic_loop N mn [] coupled_j = Inr ([], [], [])"
| "couple_symbolic_loop N mn ((j1_n, j2_n) # rest) coupled_j =
     ebind (py_min j1_n) (\<lambda>min1.
     ebind (py_get coupled_j (min1 - 1)) (\<lambda>j1.
     ebind (py_min j2_n) (\<lambda>min2.
     ebind (py_get coupled_j (min2 - 1)) (\<lambda>j2.
     ebind (py_min (j1_n @ j2_n)) (\<lambda>min12.
     ebind (py_set coupled_j (min12 - 1)
              (if length (j1_n @ j2_n) = N then Sym ''j''
               else Sym (''j'' @ concat (map show_int (j1_n @ j2_n))))) (\<lambda>coupled_j'.
     ebind (emap (\<lambda>x. py_get mn (x - 1)) j1_n) (\<lambda>m1s.
     ebind (emap (\<lambda>x. py_get mn (x - 1)) j2_n) (\<lambda>m2s.
     ebind (couple_symbolic_loop N mn rest coupled_j') (\<lambda>(cg_terms, jcoupling, sum_terms).
       (let j3 = (if length (j1_n @ j2_n) = N then Sym ''j''
                  else Sym (''j'' @ concat (map show_int (j1_n @ j2_n))));
            m3 = sadd (Add_list m1s) (Add_list m2s)
        in Inr ((j1, Add_list m1s, j2, Add_list m2s, j3, m3) # cg_terms,
                (min1, min2, j3) # jcoupling,
                (j3, m3, sadd j1 j2) # sum_terms)))))))))))"

text \<open>
  What \<^verbatim>\<open>couple\<close> returns: the sum of the terms \<open>coeff * state\<close> of the numeric branch,
  or the formal \<^verbatim>\<open>Sum(coeff*state, *sum_terms)\<close> of the symbolic branch.
\<close>

datatype couple_result =
    CoupledSum "(real \<times> coupled_state) list"
  | FormalSum sexpr coupled_state "(sexpr \<times> sexpr \<times> sexpr) list"

definition couple_symbolic ::
  "coupled_spin_class \<Rightarrow> sexpr list \<Rightarrow> sexpr list \<Rightarrow> (int list \<times> int list) list
     \<Rightarrow> error + couple_result" where
  "couple_symbolic cls jn mn coupling_list =
     ebind (couple_symbolic_loop (length jn) mn coupling_list jn)
       (\<lambda>(cg_terms, jcoupling, sum_terms).
         (case cg_terms of
            [] \<Rightarrow> Inl (NameError ''j3'')
          | _ \<Rightarrow>
            (case last cg_terms of (j1, m1, j2, m2, j3, m3) \<Rightarrow>
               ebind (CoupledSpinState_new cls j3 m3 jn (Some (butlast jcoupling)))
                 (\<lambda>state.
                   Inr (FormalSum
                         (Mul_list (map (\<lambda>(j1, m1, j2, m2, j3, m3). CG j1 m1 j2 m2 j3 m3)
                                     cg_terms))
                         state sum_terms)))))"

text \<open>
  \<^verbatim>\<open>couple(tp, jcoupling_list=None)\<close> on the tensor product of \<open>states\<close>. The states
  are uncoupled spin states and the couplings are pairs of integers by their types.
  The message of the length check names \<^verbatim>\<open>j_coupling_list\<close>, which is not defined:
  building the message raises \<^verbatim>\<open>NameError\<close>.
\<close>

definition couple ::
  "cg_fun \<Rightarrow> spin_state list \<Rightarrow> (int \<times> int) list option \<Rightarrow> error + couple_result" where
  "couple cg states jcoupling_opt =
    (if \<not> list_all (\<lambda>s. state_class s = state_class (hd states)) states
       then Inl (TypeError ''All states must be the same basis'' [])
     else if states = [] then Inl IndexError
     else
       (let jcoupling_list =
              (case jcoupling_opt of
                 None \<Rightarrow> default_jcoupling_list (length states)
               | Some l \<Rightarrow> l)
        in if \<not> (int (length jcoupling_list) = int (length states) - 2)
             then Inl (NameError ''j_coupling_list'')
           else if list_ex (\<lambda>(n1, n2). n1 = n2) jcoupling_list
             then Inl (ValueError ''Spin spaces cannot couple to themselves'' [])
           else
             ebind (j_test_loop (replicate (length states) 0) jcoupling_list) (\<lambda>_.
             ebind (build_coupling_list (length states) jcoupling_list) (\<lambda>coupling_list.
               if list_all (\<lambda>s. is_number (state_j s) \<and> is_number (state_m s)) states
                 then ebind (couple_numeric cg (coupled_class (state_class (hd states)))
                               (map (\<lambda>s. num (state_j s)) states)
                               (map (\<lambda>s. num (state_m s)) states) coupling_list)
                        (\<lambda>result. Inr (CoupledSum result))
               else couple_symbolic (coupled_class (state_class (hd states)))
                      (map state_j states) (map state_m states) coupling_list))))"

section \<open>Uncoupling of a coupled state\<close>




text \<open>
  The first loop of \<^verbatim>\<open>uncouple\<close>: one entry \<open>(n1, n2, j1, j2, j3)\<close> of \<open>coupling_list\<close>
  for every merge stored in the state, threading \<open>j_list\<close>; it returns the entries and
  the final \<open>j_list\<close>.
\<close>

type_synonym 'q coupling = "int list \<times> int list \<times> 'q \<times> 'q \<times> 'q"









section \<open>The Clebsch-Gordan evaluator and the selection rule\<close>

text \<open>
  Modelled from the spec: the Clebsch-Gordan coefficient evaluator is an external
  collaborator of the spin module (\<^verbatim>\<open>sympy.physics.quantum.cg\<close>, not among the sources at
  hand). \<open>CG_doit\<close> is the Clebsch-Gordan coefficient \<open>\<langle>j1 m1 j2 m2 | j3 m3\<rangle>\<close> in its
  closed form as a finite sum of factorials; it is zero unless \<open>m1 + m2 = m3\<close>, the
  triangle rule holds and every \<open>|m| \<le> j\<close>. It instantiates the parameter \<open>cg\<close> at
  concrete inputs.
\<close>

definition rfact :: "rat \<Rightarrow> real" where
  "rfact x = fact (nat \<lfloor>x\<rfloor>)"

definition CG_doit :: cg_fun where
  "CG_doit j1 m1 j2 m2 j3 m3 =
    (if m1 + m2 = m3 \<and> \<bar>j1 - j2\<bar> \<le> j3 \<and> j3 \<le> j1 + j2
        \<and> \<bar>m1\<bar> \<le> j1 \<and> \<bar>m2\<bar> \<le> j2 \<and> \<bar>m3\<bar> \<le> j3
        \<and> nonneg_int (j1 + j2 - j3) \<and> nonneg_int (j1 - m1) \<and> nonneg_int (j2 - m2)
        \<and> nonneg_int (j3 - m3)
     then
       sqrt (of_rat (2 * j3 + 1) * rfact (j1 + j2 - j3) * rfact (j1 - j2 + j3)
               * rfact (- j1 + j2 + j3) / rfact (j1 + j2 + j3 + 1))
       * sqrt (rfact (j1 + m1) * rfact (j1 - m1) * rfact (j2 + m2) * rfact (j2 - m2)
                 * rfact (j3 + m3) * rfact (j3 - m3))
       * (\<Sum>k\<leftarrow>[0..<Suc (nat \<lfloor>j1 + j2 - j3\<rfloor>)].
            if of_nat k > j1 + j2 - j3 \<or> of_nat k > j1 - m1 \<or> of_nat k > j2 + m2
               \<or> j3 - j2 + m1 + of_nat k < 0 \<or> j3 - j1 - m2 + of_nat k < 0 then 0
            else (- 1) ^ k
                 / (fact k * rfact (j1 + j2 - j3 - of_nat k) * rfact (j1 - m1 - of_nat k)
                    * rfact (j2 + m2 - of_nat k) * rfact (j3 - j2 + m1 + of_nat k)
                    * rfact (j3 - j1 - m2 + of_nat k)))
     else 0)"

text \<open>
  The selection rule: following the merges of \<open>coupling_list\<close> from the \<open>j\<close> of
  the spaces, the coupled \<open>j3\<close> of every merge lies in \<open>[|j1 - j2|, j1 + j2]\<close>, where
  \<open>j1\<close> and \<open>j2\<close> are the quantum numbers of the two spaces the merge combines.
\<close>

fun selection_rule :: "rat list \<Rightarrow> (int list \<times> int list) list \<Rightarrow> rat list \<Rightarrow> bool" where
  "selection_rule coupled_j [] [] = True"
| "selection_rule coupled_j ((j1_n, j2_n) # rest) (j3 # j3s) =
     (case (py_min j1_n, py_min j2_n, py_min (j1_n @ j2_n)) of
        (Inr min1, Inr min2, Inr min12) \<Rightarrow>
          (case (py_get coupled_j (min1 - 1), py_get coupled_j (min2 - 1),
                 py_set coupled_j (min12 - 1) j3) of
             (Inr j1, Inr j2, Inr coupled_j') \<Rightarrow>
               \<bar>j1 - j2\<bar> \<le> j3 \<and> j3 \<le> j1 + j2 \<and> selection_rule coupled_j' rest j3s
           | _ \<Rightarrow> False)
      | _ \<Rightarrow> False)"
| "selection_rule coupled_j coupling_list j3s = False"

fun cg_j3 :: "cg_term \<Rightarrow> rat" where
  "cg_j3 (j1, m1, j2, m2, j3, m3) = j3"

fun cg_triangle :: "cg_term \<Rightarrow> bool" where
  "cg_triangle (j1, m1, j2, m2, j3, m3) = (\<bar>j1 - j2\<bar> \<le> j3 \<and> j3 \<le> j1 + j2)"

section \<open>The round trip\<close>



text \<open>
  \<^verbatim>\<open>uncouple\<close> has no case for a sum. \<open>uncouple_termwise\<close> is the loop of a caller over
  the terms of the sum that \<^verbatim>\<open>couple\<close> returns: each coupled state goes through
  \<^verbatim>\<open>uncouple\<close>, which reads \<open>jn\<close> and the coupling from the state, and the terms of
  the result are scaled by the coefficient of the state. \<open>coeff_of\<close> reads the coefficient
  of one tensor product in such a list of terms, adding up the entries that carry it.
\<close>

definition coeff_of :: "(real \<times> 'a) list \<Rightarrow> 'a \<Rightarrow> real" where
  "coeff_of ts x = sum_list (map fst (filter (\<lambda>t. snd t = x) ts))"





section \<open>Properties: helper facts\<close>

lemma py_int_eq_iff: "(r = of_int (py_int r)) \<longleftrightarrow> r \<in> \<int>"
  unfolding py_int_def by (auto simp: Ints_def)

lemma SpinState_new_Num:
  "SpinState_new c (Num j) (Num m) =
     (if 2 * j \<notin> \<int> then Inl (ValueError ''j must be integer or half-integer, got %s'' [])
      else if 2 * m \<notin> \<int> then Inl (ValueError ''m must be integer or half-integer, got %s'' [])
      else if j < 0 then Inl (ValueError ''j must be < 0'' [])
      else if \<bar>m\<bar> > j then Inl (ValueError ''Allowed values for m are -j <= m <= j'' [])
      else Inr (State c (Num j) (Num m)))"
  unfolding SpinState_new_def by (simp add: py_int_eq_iff)

lemma int_gap: "(x::rat) \<in> \<int> \<Longrightarrow> 0 < x \<Longrightarrow> 1 \<le> x"
  by (auto simp: Ints_def)

lemma py_get_nth: "i < length xs \<Longrightarrow> py_get xs (int i) = Inr (xs ! i)"
  by (simp add: py_get_def)

lemma py_set_nth: "i < length xs \<Longrightarrow> py_set xs (int i) v = Inr (xs[i := v])"
  by (simp add: py_set_def)

lemma ebind_Inr: "ebind x f = Inr y \<longleftrightarrow> (\<exists>a. x = Inr a \<and> f a = Inr y)"
  by (cases x) auto

lemma emap_Inr_length: "emap f xs = Inr ys \<Longrightarrow> length ys = length xs"
  by (induction xs arbitrary: ys) (auto simp: ebind_Inr)

lemma emap_Inr_nth: "emap f xs = Inr ys \<Longrightarrow> i < length xs \<Longrightarrow> f (xs ! i) = Inr (ys ! i)"
proof (induction xs arbitrary: ys i)
  case Nil
  then show ?case by simp
next
  case (Cons x xs)
  then show ?case by (cases i) (auto simp: ebind_Inr)
qed

lemma emap_concat_mem:
  assumes "emap f xs = Inr ys" "y \<in> set (concat ys)"
  shows "\<exists>x l. x \<in> set xs \<and> f x = Inr l \<and> y \<in> set l"
  using assms
proof (induction xs arbitrary: ys)
  case Nil
  then show ?case by simp
next
  case (Cons x xs)
  from Cons.prems(1) obtain l ls where l: "f x = Inr l" and ls: "emap f xs = Inr ls"
    and ys: "ys = l # ls" by (auto simp: ebind_Inr)
  from Cons.prems(2) ys have "y \<in> set l \<or> y \<in> set (concat ls)" by simp
  then show ?case
  proof
    assume "y \<in> set l"
    with l show ?thesis by auto
  next
    assume "y \<in> set (concat ls)"
    from Cons.IH[OF ls this] show ?thesis by auto
  qed
qed

section \<open>Construction of spin states\<close>

text \<open>
  C9, as stated, fails: with a symbolic \<open>j\<close> the constructor still checks a numeric
  \<open>m\<close>, and \<^verbatim>\<open>JzKet(j, 1/3)\<close> raises.
\<close>

theorem SpinState_new_symbolic_j_counterexample:
  "\<not> is_number (Sym ''j'')
   \<and> SpinState_new JzKet (Sym ''j'') (Num (1 / 3)) =
       Inl (ValueError ''m must be integer or half-integer, got %s'' [])"
proof -
  have "\<lfloor>(2::rat) / 3\<rfloor> = 0" by (simp add: floor_eq_iff)
  then show ?thesis by (simp add: SpinState_new_def py_int_def)
qed

text \<open>
  C9 (amended): \<^verbatim>\<open>SpinState.__new__\<close> runs each validity check only when the arguments
  that check reads are concrete numbers. With \<open>j\<close> and \<open>m\<close> both symbolic the
  construction always succeeds. With only \<open>j\<close> symbolic the half-integrality of a numeric
  \<open>m\<close> is the one check left; with only \<open>m\<close> symbolic the half-integrality and the
  sign of a numeric \<open>j\<close> are the checks left. The bound \<open>|m| \<le> j\<close> is reported only
  when both are numeric.
\<close>

theorem SpinState_new_numeric_gating:
  "(\<not> is_number j \<and> \<not> is_number m \<longrightarrow> SpinState_new c j m = Inr (State c j m))
   \<and> (\<not> is_number j \<longrightarrow>
        SpinState_new c j m =
          (if is_number m \<and> 2 * num m \<notin> \<int>
             then Inl (ValueError ''m must be integer or half-integer, got %s'' [])
           else Inr (State c j m)))
   \<and> (\<not> is_number m \<longrightarrow>
        SpinState_new c j m =
          (if is_number j \<and> 2 * num j \<notin> \<int>
             then Inl (ValueError ''j must be integer or half-integer, got %s'' [])
           else if is_number j \<and> num j < 0 then Inl (ValueError ''j must be < 0'' [])
           else Inr (State c j m)))
   \<and> (SpinState_new c j m = Inl (ValueError ''Allowed values for m are -j <= m <= j'' [])
        \<longrightarrow> is_number j \<and> is_number m \<and> \<bar>num m\<bar> > num j)"
  unfolding SpinState_new_def by (simp add: py_int_eq_iff)

theorem SpinState_new_numeric_gating_witness:
  "SpinState_new JzKet (Sym ''j'') (Sym ''m'') = Inr (State JzKet (Sym ''j'') (Sym ''m''))
   \<and> SpinState_new JzKet (Sym ''j'') (Num (1 / 2)) = Inr (State JzKet (Sym ''j'') (Num (1 / 2)))
   \<and> SpinState_new JzKet (Num (- 1)) (Sym ''m'') = Inl (ValueError ''j must be < 0'' [])
   \<and> SpinState_new JzKet (Num 1) (Num 2) =
        Inl (ValueError ''Allowed values for m are -j <= m <= j'' [])
   \<and> is_number (Num 1) \<and> is_number (Num 2) \<and> \<bar>num (Num 2)\<bar> > num (Num 1)"
  using SpinState_new_numeric_gating [of "Sym ''j''" "Sym ''m''" JzKet]
    SpinState_new_numeric_gating [of "Sym ''j''" "Num (1 / 2)" JzKet]
    SpinState_new_numeric_gating [of "Num (- 1)" "Sym ''m''" JzKet]
    SpinState_new_numeric_gating [of "Num 1" "Num 2" JzKet]
  by (simp add: SpinState_new_Num)

section \<open>Ladder action\<close>

text \<open>
  C4, as stated, fails: the constructor accepts \<^verbatim>\<open>JzKet(1, 1/2)\<close> (\<open>2j\<close> and \<open>2m\<close>
  are integers and \<open>|m| \<le> j\<close>), and \<^verbatim>\<open>Jplus\<close> on it builds \<^verbatim>\<open>JzKet(1, 3/2)\<close>,
  which the constructor refuses.
\<close>

theorem Jplus_parity_counterexample:
  "SpinState_new JzKet (Num 1) (Num (1 / 2)) = Inr (State JzKet (Num 1) (Num (1 / 2)))
   \<and> Jplus_apply_JzKet (State JzKet (Num 1) (Num (1 / 2))) =
       Inl (ValueError ''Allowed values for m are -j <= m <= j'' [])"
  by (simp add: SpinState_new_Num Jplus_apply_JzKet_def)

text \<open>
  C4 (amended): for every \<^verbatim>\<open>JzKet\<close> with numeric \<open>j\<close> and \<open>m\<close> accepted by the
  constructor and with \<open>j - m\<close> an integer, \<^verbatim>\<open>Jplus\<close> returns zero when \<open>m \<ge> j\<close>
  and otherwise \<open>hbar * sqrt(j(j+1) - m(m+1))\<close> times \<^verbatim>\<open>JzKet(j, m+1)\<close>; \<^verbatim>\<open>Jminus\<close>
  returns zero when \<open>m \<le> -j\<close> and otherwise \<open>hbar * sqrt(j(j+1) - m(m-1))\<close> times
  \<^verbatim>\<open>JzKet(j, m-1)\<close>.
\<close>

theorem ladder_action_JzKet:
  assumes ok: "SpinState_new JzKet (Num j) (Num m) = Inr ket"
    and par: "j - m \<in> \<int>"
  shows "Jplus_apply_JzKet ket =
           Inr (if m \<ge> j then QZero
                else QScaled (Mul Hbar (Sqrt (Num (j * (j + 1) - m * (m + 1)))))
                       (State JzKet (Num j) (Num (m + 1))))
       \<and> Jminus_apply_JzKet ket =
           Inr (if m \<le> - j then QZero
                else QScaled (Mul Hbar (Sqrt (Num (j * (j + 1) - m * (m - 1)))))
                       (State JzKet (Num j) (Num (m - 1))))"
proof -
  from ok have k: "ket = State JzKet (Num j) (Num m)"
    and j2: "2 * j \<in> \<int>" and m2: "2 * m \<in> \<int>" and j0: "0 \<le> j" and mj: "\<bar>m\<bar> \<le> j"
    by (auto simp: SpinState_new_Num split: if_splits)
  have up: "2 * (m + 1) \<in> \<int>" using m2 by (simp add: distrib_left)
  have dn: "2 * (m - 1) \<in> \<int>" using m2 by (simp add: right_diff_distrib)
  have plus: "Jplus_apply_JzKet ket =
           Inr (if m \<ge> j then QZero
                else QScaled (Mul Hbar (Sqrt (Num (j * (j + 1) - m * (m + 1)))))
                       (State JzKet (Num j) (Num (m + 1))))"
  proof (cases "m \<ge> j")
    case True
    then show ?thesis by (simp add: Jplus_apply_JzKet_def k)
  next
    case False
    then have "0 < j - m" by simp
    with par have "1 \<le> j - m" by (rule int_gap)
    then have "\<bar>m + 1\<bar> \<le> j" using mj by linarith
    then show ?thesis using False j2 up j0
      by (simp add: Jplus_apply_JzKet_def k SpinState_new_Num ssub_def algebra_simps)
  qed
  have minus: "Jminus_apply_JzKet ket =
           Inr (if m \<le> - j then QZero
                else QScaled (Mul Hbar (Sqrt (Num (j * (j + 1) - m * (m - 1)))))
                       (State JzKet (Num j) (Num (m - 1))))"
  proof (cases "m \<le> - j")
    case True
    then show ?thesis by (simp add: Jminus_apply_JzKet_def k)
  next
    case False
    then have "0 < j + m" by simp
    moreover have "j + m \<in> \<int>"
    proof -
      have "j + m = 2 * j - (j - m)" by simp
      then show ?thesis using j2 par by (metis Ints_diff)
    qed
    ultimately have "1 \<le> j + m" by (rule_tac int_gap)
    then have "\<bar>m - 1\<bar> \<le> j" using mj by linarith
    then show ?thesis using False j2 dn j0
      by (simp add: Jminus_apply_JzKet_def k SpinState_new_Num ssub_def algebra_simps)
  qed
  from plus minus show ?thesis by simp
qed

theorem ladder_action_JzKet_witness:
  "SpinState_new JzKet (Num 1) (Num 0) = Inr (State JzKet (Num 1) (Num 0))
   \<and> (1::rat) - 0 \<in> \<int>
   \<and> Jplus_apply_JzKet (State JzKet (Num 1) (Num 0)) =
       Inr (QScaled (Mul Hbar (Sqrt (Num 2))) (State JzKet (Num 1) (Num 1)))
   \<and> Jminus_apply_JzKet (State JzKet (Num 1) (Num 0)) =
       Inr (QScaled (Mul Hbar (Sqrt (Num 2))) (State JzKet (Num 1) (Num (- 1))))"
proof -
  have c: "SpinState_new JzKet (Num 1) (Num 0) = Inr (State JzKet (Num 1) (Num 0))"
    by (simp add: SpinState_new_Num)
  have p: "(1::rat) - 0 \<in> \<int>" by simp
  show ?thesis using c p ladder_action_JzKet [OF c p] by simp
qed

section \<open>Evaluation of the Wigner D-function\<close>

lemma wigner_d_half_1_1_0: "wigner_d_half 1 1 0 = - sqrt 2 / 2"
  unfolding wigner_d_half_def
  by (simp add: upt_rec numeral_eq_Suc fact_numeral real_sqrt_mult)

text \<open>
  C6: \<^verbatim>\<open>WignerD(1, 1, 0, pi, pi/2, 0).doit()\<close> is \<open>sqrt(2)/2\<close> and
  \<^verbatim>\<open>WignerD(1, 1, 0, 0, pi/2, 0).doit()\<close> is \<open>-sqrt(2)/2\<close>.
\<close>

theorem wignerd_concrete_values:
  "doit (WignerD (Num 1) (Num 1) (Num 0) (Angle pi) (Angle (pi / 2)) (Angle 0)) =
     Inr (complex_of_real (sqrt 2 / 2))
   \<and> doit (WignerD (Num 1) (Num 1) (Num 0) (Angle 0) (Angle (pi / 2)) (Angle 0)) =
     Inr (complex_of_real (- sqrt 2 / 2))"
  by (simp add: doit_def eval_wignerd_def wigner_domain_def nonneg_int_def
        wigner_d_half_1_1_0 exp_minus)

text \<open>
  C8: for every \<^verbatim>\<open>WignerD\<close> expression whose first argument \<open>j\<close> is not a number,
  \<^verbatim>\<open>doit\<close> raises the \<^verbatim>\<open>ValueError\<close> that says \<open>j\<close> must be numerical; nothing is
  evaluated.
\<close>

theorem wignerd_symbolic_j_raises:
  "\<not> is_number (wd_j w) \<Longrightarrow>
     doit w = Inl (ValueError ''j parameter must be numerical to evaluate, got %s'' [])"
  by (simp add: doit_def eval_wignerd_def)

theorem wignerd_symbolic_j_raises_witness:
  "\<not> is_number (Sym ''j'')
   \<and> doit (WignerD (Sym ''j'') (Sym ''m'') (Sym ''mp'')
             (AngleSym ''alpha'') (AngleSym ''beta'') (AngleSym ''gamma'')) =
       Inl (ValueError ''j parameter must be numerical to evaluate, got %s'' [])"
  using wignerd_symbolic_j_raises
    [of "WignerD (Sym ''j'') (Sym ''m'') (Sym ''mp'')
           (AngleSym ''alpha'') (AngleSym ''beta'') (AngleSym ''gamma'')"]
  by simp

section \<open>The default coupling scheme\<close>

lemma sorted_map_int_upt: "sorted (map int [a..<b])"
  by (simp add: sorted_map)

lemma sort_prefix: "sort (map int [1..<a] @ [int a]) = map int [1..<Suc a]" if "1 \<le> a"
proof -
  have "map int [1..<a] @ [int a] = map int [1..<Suc a]" using that by simp
  then show ?thesis by (simp only: sorted_sort_id[OF sorted_map_int_upt])
qed

lemma build_default_loop:
  assumes "2 \<le> a" "a \<le> N" "length nl = N" "nl ! 0 = map int [1..<a]"
    and "\<forall>i. a - 1 \<le> i \<and> i < N \<longrightarrow> nl ! i = [int i + 1]"
  shows "build_coupled_loop (map (\<lambda>n. (1, int n, f n)) [a..<N]) nl =
           Inr (map (\<lambda>k. (map int [1..<k], [int k])) [a..<N], map f [a..<N])"
  using assms
proof (induction "N - a" arbitrary: a nl)
  case 0
  then show ?case by simp
next
  case (Suc d)
  then have lt: "a < N" by linarith
  then have split: "[a..<N] = a # [Suc a..<N]" by (simp add: upt_rec)
  have g1: "py_get nl (1 - 1) = Inr (map int [1..<a])"
    using py_get_nth[of 0 nl] Suc.prems lt by simp
  have "nl ! (a - 1) = [int (a - 1) + 1]" using Suc.prems lt by simp
  then have na: "nl ! (a - 1) = [int a]" using Suc.prems(1) by (simp add: of_nat_diff)
  have g2: "py_get nl (int a - 1) = Inr [int a]"
    using py_get_nth[of "a - 1" nl] Suc.prems lt na by (simp add: of_nat_diff)
  have srt: "sort (map int [1..<a] @ [int a]) = map int [1..<Suc a]"
    using sort_prefix[of a] Suc.prems(1) by simp
  have hd1: "py_get (map int [1..<Suc a]) 0 = Inr 1"
  proof -
    have "[1..<Suc a] = 1 # [Suc 1..<Suc a]" using Suc.prems(1) by (subst upt_rec) simp
    then show ?thesis by (simp add: py_get_def)
  qed
  have st: "py_set nl (1 - 1) (map int [1..<Suc a]) = Inr (nl[0 := map int [1..<Suc a]])"
    using py_set_nth[of 0 nl] Suc.prems lt by simp
  let ?nl = "nl[0 := map int [1..<Suc a]]"
  have IH: "build_coupled_loop (map (\<lambda>n. (1, int n, f n)) [Suc a..<N]) ?nl =
           Inr (map (\<lambda>k. (map int [1..<k], [int k])) [Suc a..<N], map f [Suc a..<N])"
  proof (rule Suc.hyps(1))
    show "d = N - Suc a" using Suc.hyps(2) by simp
    show "2 \<le> Suc a" using Suc.prems(1) by simp
    show "Suc a \<le> N" using lt by simp
    show "length ?nl = N" using Suc.prems by simp
    show "?nl ! 0 = map int [1..<Suc a]" using Suc.prems lt by simp
    show "\<forall>i. Suc a - 1 \<le> i \<and> i < N \<longrightarrow> ?nl ! i = [int i + 1]"
    proof (intro allI impI)
      fix i assume i: "Suc a - 1 \<le> i \<and> i < N"
      then have "a - 1 \<le> i \<and> i < N" "i \<noteq> 0" using Suc.prems(1) by auto
      then show "?nl ! i = [int i + 1]" using Suc.prems(5) by simp
    qed
  qed
  show ?case
    by (simp only: split list.map build_coupled_loop.simps g1 g2 ebind.simps srt hd1 st IH
          prod.case)
qed

text \<open>
  C10: a \<^verbatim>\<open>CoupledSpinState\<close> built from \<open>jn\<close> (at least two spaces) without
  \<open>jcoupling\<close> gets the default scheme: merge \<open>k\<close> couples the space of the indices
  \<open>1, ..., k-1\<close> merged so far with space \<open>k\<close>, for \<open>k = 2, 3, ...\<close> up to the last but
  one, and its coupled quantum number is the partial sum \<open>j1 + ... + jk\<close>.
\<close>

theorem default_coupling_partial_sums:
  assumes "2 \<le> length jn"
  shows "CoupledSpinState_new cls j m jn None =
           Inr (CoupledState cls j m jn
                  (map (\<lambda>k. Add_list (take k jn)) [2..<length jn])
                  (map (\<lambda>k. (map int [1..<k], [int k])) [2..<length jn]))"
proof -
  let ?N = "length jn"
  let ?nl = "map (\<lambda>n. [int n + 1]) [0..<?N]"
  have "build_coupled_loop (map (\<lambda>n. (1, int n, Add_list (take n jn))) [2..<?N]) ?nl =
           Inr (map (\<lambda>k. (map int [1..<k], [int k])) [2..<?N],
                map (\<lambda>n. Add_list (take n jn)) [2..<?N])"
  proof (rule build_default_loop)
    show "2 \<le> (2::nat)" by simp
    show "2 \<le> ?N" by fact
    show "length ?nl = ?N" by simp
    have "0 < ?N" using assms by linarith
    then have "?nl ! 0 = [1]" by (simp only: nth_map_upt[of 0 ?N 0]) simp
    moreover have "map int [1..<2] = [1]"
      by (simp add: upt_rec[of 1] upt_rec[of "Suc 0"] upt_rec[of 2])
    ultimately show "?nl ! 0 = map int [1..<2]" by simp
    show "\<forall>i. 2 - 1 \<le> i \<and> i < ?N \<longrightarrow> ?nl ! i = [int i + 1]" by simp
  qed
  then show ?thesis using assms
    by (simp add: CoupledSpinState_new_def build_coupled_def of_nat_diff)
qed

theorem default_coupling_partial_sums_witness:
  "2 \<le> length [Num 1, Num (1 / 2), Num (3 / 2), Num 1]
   \<and> CoupledSpinState_new JzKetCoupled (Num 3) (Num 1)
        [Num 1, Num (1 / 2), Num (3 / 2), Num 1] None =
      Inr (CoupledState JzKetCoupled (Num 3) (Num 1) [Num 1, Num (1 / 2), Num (3 / 2), Num 1]
             [Num (3 / 2), Num 3] [([1], [2]), ([1, 2], [3])])"
  using default_coupling_partial_sums
    [of "[Num 1, Num (1 / 2), Num (3 / 2), Num 1]" JzKetCoupled "Num 3" "Num 1"]
  by (simp add: upt_rec numeral_eq_Suc)

section \<open>Evaluation helpers for coupling\<close>

lemma upto_01: "[0..1::int] = [0, 1]" "[0..0::int] = [0]" "[1..1::int] = [1]" "[1..0::int] = []"
  "[0..-1::int] = []"
  by (simp_all add: upto.simps)

lemma bcl2: "build_coupling_list (Suc (Suc 0)) [] = Inr [([1], [2])]"
  by (simp add: build_coupling_list_def py_get_def upt_rec)

lemma bcl3: "build_coupling_list (Suc (Suc (Suc 0))) [(1, 2)] = Inr [([1], [2]), ([1, 2], [3])]"
  by code_simp


lemma djl: "default_jcoupling_list (Suc (Suc 0)) = []"
  "default_jcoupling_list (Suc (Suc (Suc 0))) = [(1, 2)]"
  "default_jcoupling_list (Suc (Suc (Suc (Suc 0)))) = [(1, 2), (1, 3)]"
  by code_simp+

lemma jtl: "j_test_loop [0, 0, 0] [(1, 2)] = Inr ()" "j_test_loop [0, 0, 0, 0] [(1, 2), (1, 3)] = Inr ()"
  by code_simp+

lemma count_vals: "count (Suc 0) 0 = 1" "count (Suc 0) 1 = 1" "count 0 0 = 1" "count 0 1 = 0"
  by (simp_all add: count_def upto_01)

lemma dec1: "decode_config 0 (Suc 0) 0 = [0]" "decode_config 0 (Suc 0) 1 = [1]"
  by (simp_all add: decode_config_def decode_while.simps count_vals)

lemma CG_doit_triangle:
  "j3 < \<bar>j1 - j2\<bar> \<or> j1 + j2 < j3 \<Longrightarrow> CG_doit j1 m1 j2 m2 j3 m3 = 0"
  by (auto simp: CG_doit_def)

lemma sqrt_half: "sqrt (1 / 2) = sqrt 2 / 2"
  by (simp add: real_sqrt_divide real_div_sqrt)

lemma sqrt_12: "sqrt 12 / sqrt 6 = sqrt 2"
proof -
  have "sqrt 12 = sqrt 6 * sqrt 2" using real_sqrt_mult[of 6 2] by simp
  then show ?thesis by simp
qed

lemma sqrt_8: "4 / sqrt 8 = sqrt 2"
proof -
  have "sqrt 8 = sqrt 4 * sqrt 2" using real_sqrt_mult[of 4 2] by simp
  also have "sqrt 4 = 2" using real_sqrt_abs[of 2] by simp
  finally have "4 / sqrt 8 = 2 / sqrt 2" by simp
  then show ?thesis by (simp add: real_div_sqrt)
qed

lemma CG_1_0_1_1_2_1: "CG_doit 1 0 1 1 2 1 = sqrt 2 / 2"
  by (simp add: CG_doit_def nonneg_int_def rfact_def fact_numeral real_sqrt_mult real_sqrt_divide
        upt_rec numeral_eq_Suc sqrt_12)

lemma CG_1_0_1_1_1_1: "CG_doit 1 0 1 1 1 1 = - sqrt 2 / 2"
  by (simp add: CG_doit_def nonneg_int_def rfact_def fact_numeral real_sqrt_mult real_sqrt_divide
        upt_rec numeral_eq_Suc sqrt_8)


lemma CG_half_stretched: "CG_doit (1 / 2) (- (1 / 2)) (1 / 2) (- (1 / 2)) 1 (- 1) = 1"
  by (simp add: CG_doit_def nonneg_int_def rfact_def fact_numeral real_sqrt_mult real_sqrt_divide
        upt_rec numeral_eq_Suc)

lemma CG_half_zero: "CG_doit (1 / 2) (- (1 / 2)) (1 / 2) (- (1 / 2)) 0 (- 1) = 0"
  "CG_doit (1 / 2) (- (1 / 2)) (1 / 2) (- (1 / 2)) (- 1) (- 1) = 0"
  by (simp_all add: CG_doit_def)

lemma count_vals2: "count (Suc 0) 2 = 1"
  by code_simp

lemma dec2: "decode_config 0 (Suc 0) 2 = [2]"
  by code_simp

lemma upto_02: "[0..2::int] = [0, 1, 2]"
  by code_simp

lemma couple_half_down:
  "couple CG_doit [State JzKet (Num (1 / 2)) (Num (- (1 / 2))),
                   State JzKet (Num (1 / 2)) (Num (- (1 / 2)))] None =
     Inr (CoupledSum
       [(1, CoupledState JzKetCoupled (Num 1) (Num (- 1)) [Num (1 / 2), Num (1 / 2)] [] []),
        (0, CoupledState JzKetCoupled (Num 0) (Num (- 1)) [Num (1 / 2), Num (1 / 2)] [] []),
        (0, CoupledState JzKetCoupled (Num (- 1)) (Num (- 1)) [Num (1 / 2), Num (1 / 2)] [] [])])"
  by (simp add: couple_def default_jcoupling_list_def bcl2 py_get_def py_set_def
      couple_numeric_def Let_def rebound_diff_def couple_config_term_def dec1 dec2 count_vals count_vals2 upto_01 upto_02
      CoupledSpinState_new_def build_coupled_def CG_half_stretched CG_half_zero)

lemma couple_1_0_1_1:
  "couple cg [State JzKet (Num 1) (Num 0), State JzKet (Num 1) (Num 1)] None =
     Inr (CoupledSum
       [(cg 1 0 1 1 2 1, CoupledState JzKetCoupled (Num 2) (Num 1) [Num 1, Num 1] [] []),
        (cg 1 0 1 1 1 1, CoupledState JzKetCoupled (Num 1) (Num 1) [Num 1, Num 1] [] [])])"
  by (simp add: couple_def default_jcoupling_list_def bcl2 py_get_def py_set_def
      couple_numeric_def Let_def rebound_diff_def couple_config_term_def dec1 count_vals upto_01
      CoupledSpinState_new_def build_coupled_def)

section \<open>Coupling: concrete and symbolic results\<close>

text \<open>
  C2: \<^verbatim>\<open>couple\<close> on the tensor product of \<open>|1,0>\<close> and \<open>|1,1>\<close> returns the two terms
  \<open>sqrt(2)/2 |2,1,j1=1,j2=1>\<close> and \<open>-sqrt(2)/2 |1,1,j1=1,j2=1>\<close>, given that the
  Clebsch-Gordan evaluator returns \<open>sqrt(2)/2\<close> for \<open>(1,0,1,1,2,1)\<close> and \<open>-sqrt(2)/2\<close>
  for \<open>(1,0,1,1,1,1)\<close>.
\<close>

theorem couple_scenario_1:
  assumes "cg 1 0 1 1 2 1 = sqrt 2 / 2" and "cg 1 0 1 1 1 1 = - sqrt 2 / 2"
  shows "couple cg [State JzKet (Num 1) (Num 0), State JzKet (Num 1) (Num 1)] None =
     Inr (CoupledSum
       [(sqrt 2 / 2, CoupledState JzKetCoupled (Num 2) (Num 1) [Num 1, Num 1] [] []),
        (- sqrt 2 / 2, CoupledState JzKetCoupled (Num 1) (Num 1) [Num 1, Num 1] [] [])])"
  using assms by (simp add: couple_1_0_1_1)

theorem couple_scenario_1_witness:
  "CG_doit 1 0 1 1 2 1 = sqrt 2 / 2 \<and> CG_doit 1 0 1 1 1 1 = - sqrt 2 / 2
   \<and> couple CG_doit [State JzKet (Num 1) (Num 0), State JzKet (Num 1) (Num 1)] None =
     Inr (CoupledSum
       [(sqrt 2 / 2, CoupledState JzKetCoupled (Num 2) (Num 1) [Num 1, Num 1] [] []),
        (- sqrt 2 / 2, CoupledState JzKetCoupled (Num 1) (Num 1) [Num 1, Num 1] [] [])])"
  using couple_scenario_1 [of CG_doit, OF CG_1_0_1_1_2_1 CG_1_0_1_1_1_1] CG_1_0_1_1_2_1 CG_1_0_1_1_1_1
  by simp

text \<open>
  C7: for two states of one class whose \<open>j\<close> are the symbols \<open>a\<close> and \<open>b\<close> (and any
  \<open>m1\<close>, \<open>m2\<close>), \<^verbatim>\<open>couple\<close> returns the formal sum over the symbol \<open>j\<close> from
  \<open>m1 + m2\<close> to \<open>a + b\<close> of \<open>CG(a, m1, b, m2, j, m1 + m2)\<close> times the coupled state
  \<open>(j, m1 + m2)\<close> with component values \<open>(a, b)\<close>.
\<close>

theorem couple_symbolic_pair:
  "couple cg [State c (Sym a) m1, State c (Sym b) m2] None =
   Inr (FormalSum (CG (Sym a) m1 (Sym b) m2 (Sym ''j'') (sadd m1 m2))
          (CoupledState (coupled_class c) (Sym ''j'') (sadd m1 m2) [Sym a, Sym b] [] [])
          [(Sym ''j'', sadd m1 m2, sadd (Sym a) (Sym b))])"
  by (simp add: couple_def default_jcoupling_list_def bcl2 py_get_def py_set_def
      couple_symbolic_def CoupledSpinState_new_def build_coupled_def Let_def)

section \<open>Errors for a coupling scheme of the wrong length\<close>

text \<open>
  C5 does not hold on the code. With three states and two couplings, building the message
  of \<^verbatim>\<open>couple\<close>'s length check raises \<^verbatim>\<open>NameError\<close> (the name \<^verbatim>\<open>j_coupling_list\<close> is
  not defined). With three spaces and no coupling, the constructor of a coupled state
  reports the expected length \<open>len(jn) - 1 = 2\<close>, while the length it requires is
  \<open>len(jn) - 2 = 1\<close>.
\<close>

theorem wrong_length_errors:
  "couple cg [State JzKet (Num 1) (Num 1), State JzKet (Num 1) (Num 1),
              State JzKet (Num 1) (Num 0)] (Some [(1, 2), (1, 3)])
     = Inl (NameError ''j_coupling_list'')
   \<and> CoupledSpinState_new JzKetCoupled (Num 1) (Num 0) [Num 1, Num 1, Num 1] (Some [])
     = Inl (ValueError ''jcoupling must have length of %d, got %d'' [2, 0])"
  by (simp add: couple_def CoupledSpinState_new_def)

section \<open>The selection rule of the coupling\<close>

lemma couple_terms_rule:
  assumes "couple_terms mn cl dl cj = Inr (cg_terms, jcoupling)"
    and "length dl = length cl"
    and "\<forall>t\<in>set cg_terms. cg_triangle t"
  shows "selection_rule cj cl (map cg_j3 cg_terms)
         \<and> map (\<lambda>(a, b, j). j) jcoupling = map cg_j3 cg_terms
         \<and> length cg_terms = length cl"
  using assms
proof (induction mn cl dl cj arbitrary: cg_terms jcoupling rule: couple_terms.induct)
  case (1 mn j1_n j2_n rest diff diff_rest coupled_j)
  from "1.prems"(1) obtain min1 j1 min2 j2 min12 cj' m1s m2s ct jc where
    a: "py_min j1_n = Inr min1" "py_get coupled_j (min1 - 1) = Inr j1"
       "py_min j2_n = Inr min2" "py_get coupled_j (min2 - 1) = Inr j2"
       "py_min (j1_n @ j2_n) = Inr min12"
       "py_set coupled_j (min12 - 1) (j1 + j2 - of_int diff) = Inr cj'"
       "emap (\<lambda>x. py_get mn (x - 1)) j1_n = Inr m1s"
       "emap (\<lambda>x. py_get mn (x - 1)) j2_n = Inr m2s"
    and rec: "couple_terms mn rest diff_rest cj' = Inr (ct, jc)"
    and res: "cg_terms = (j1, sum_list m1s, j2, sum_list m2s, j1 + j2 - of_int diff,
               sum_list m1s + sum_list m2s) # ct"
       "jcoupling = (min1, min2, j1 + j2 - of_int diff) # jc"
    by (auto simp: ebind_Inr)
  have IH: "selection_rule cj' rest (map cg_j3 ct)
         \<and> map (\<lambda>(a, b, j). j) jc = map cg_j3 ct \<and> length ct = length rest"
    using "1.IH"[OF rec] "1.prems"(2,3) res by simp
  have tri: "\<bar>j1 - j2\<bar> \<le> j1 + j2 - of_int diff \<and> j1 + j2 - of_int diff \<le> j1 + j2"
    using "1.prems"(3) res by simp
  show ?case using IH tri a res by simp
qed simp_all


lemma decode_for_length: "length (decode_for c n ks m off) = length ks"
  by (induction ks arbitrary: m off) (auto split: prod.splits)

lemma decode_config_length: "length (decode_config c n diff) = n"
  by (simp add: decode_config_def decode_for_length)

lemma build_coupled_loop_jn:
  "build_coupled_loop jc nl = Inr (cn, cjn) \<Longrightarrow> cjn = map (\<lambda>(a, b, j). j) jc"
proof (induction jc arbitrary: nl cn cjn)
  case Nil
  then show ?case by simp
next
  case (Cons t jc)
  obtain n1 n2 j where t: "t = (n1, n2, j)" by (cases t)
  from Cons.prems obtain nl' cn' cjn' where
    rec: "build_coupled_loop jc nl' = Inr (cn', cjn')" and r: "cjn = j # cjn'"
    unfolding t by (auto simp: ebind_Inr)
  from Cons.IH[OF rec] r show ?case by (simp add: t)
qed

lemma CoupledSpinState_new_Some:
  assumes "CoupledSpinState_new cls j m jn (Some jc) = Inr s"
  shows "cs_j s = j \<and> cs_m s = m \<and> cs_jn s = jn \<and> cs_class s = cls
         \<and> cs_coupled_jn s = map (\<lambda>(a, b, j). j) jc"
proof -
  from assms obtain cn cjn where b: "build_coupled jc (length jn) = Inr (cn, cjn)"
    and s: "s = CoupledState cls j m jn cjn cn"
    by (auto simp: CoupledSpinState_new_def ebind_Inr split: if_splits)
  from b have "cjn = map (\<lambda>(a, b, j). j) jc"
    unfolding build_coupled_def by (rule build_coupled_loop_jn)
  with s show ?thesis by simp
qed

lemma couple_symbolic_not_sum: "couple_symbolic cls jn mn cl \<noteq> Inr (CoupledSum ts)"
  by (auto simp: couple_symbolic_def ebind_Inr split: list.splits prod.splits)

lemma prod_list_nonzero: "prod_list xs \<noteq> (0::real) \<Longrightarrow> x \<in> set xs \<Longrightarrow> x \<noteq> 0"
  by (induction xs) auto

lemma if_Inl_Inr: "(if b then Inl e else x) = Inr y \<Longrightarrow> \<not> b \<and> x = Inr y"
  by (cases b) auto

lemma couple_config_term_rule:
  assumes t: "couple_config_term cg cls jn mn cl diff_max dl = Inr tms"
    and len: "length dl = length cl"
    and tri: "\<forall>j1 m1 j2 m2 j3 m3. j3 < \<bar>j1 - j2\<bar> \<or> j1 + j2 < j3 \<longrightarrow> cg j1 m1 j2 m2 j3 m3 = 0"
    and mem: "(c, s) \<in> set tms" and nz: "c \<noteq> 0"
  shows "selection_rule jn cl (map num (cs_coupled_jn s) @ [num (cs_j s)])"
proof -
  from t mem have nskip: "\<not> list_ex (\<lambda>(d, mx). of_int d > mx) (zip dl diff_max)"
    by (auto simp: couple_config_term_def split: if_splits)
  with t obtain cg_terms jcoupling where
    ct: "couple_terms mn cl dl jn = Inr (cg_terms, jcoupling)"
    and r: "(case cg_terms of
          [] \<Rightarrow> Inl (NameError ''j3'')
        | _ \<Rightarrow>
          (case last cg_terms of (j1, m1, j2, m2, j3, m3) \<Rightarrow>
             ebind (CoupledSpinState_new cls (Num j3) (Num m3) (map Num jn)
                      (Some (map (\<lambda>(a, b, j). (a, b, Num j)) (butlast jcoupling))))
               (\<lambda>state.
                 Inr [(prod_list (map (\<lambda>(j1, m1, j2, m2, j3, m3). cg j1 m1 j2 m2 j3 m3)
                                   cg_terms), state)]))) = Inr tms"
    unfolding couple_config_term_def by (simp only: if_False ebind_Inr) (auto simp only: prod.case)
  from r have ne: "cg_terms \<noteq> []" by (cases cg_terms) simp_all
  obtain j1 m1 j2 m2 j3 m3 where lst: "last cg_terms = (j1, m1, j2, m2, j3, m3)"
    by (cases "last cg_terms")
  from r ne lst obtain state where
    st: "CoupledSpinState_new cls (Num j3) (Num m3) (map Num jn)
               (Some (map (\<lambda>(a, b, j). (a, b, Num j)) (butlast jcoupling))) = Inr state"
    and tms: "tms = [(prod_list (map (\<lambda>(j1, m1, j2, m2, j3, m3). cg j1 m1 j2 m2 j3 m3)
                                   cg_terms), state)]"
    by (cases cg_terms) (auto simp: ebind_Inr)
  from mem tms have c: "c = prod_list (map (\<lambda>(j1, m1, j2, m2, j3, m3). cg j1 m1 j2 m2 j3 m3) cg_terms)"
    and s: "s = state" by simp_all
  have all_tri: "\<forall>t\<in>set cg_terms. cg_triangle t"
  proof
    fix t assume tin: "t \<in> set cg_terms"
    obtain j1 m1 j2 m2 j3 m3 where tt: "t = (j1, m1, j2, m2, j3, m3)" by (cases t)
    have "cg j1 m1 j2 m2 j3 m3 \<in> set (map (\<lambda>(j1, m1, j2, m2, j3, m3). cg j1 m1 j2 m2 j3 m3) cg_terms)"
      using tin tt by force
    with nz c have "cg j1 m1 j2 m2 j3 m3 \<noteq> 0" using prod_list_nonzero by blast
    with tri have "\<not> (j3 < \<bar>j1 - j2\<bar> \<or> j1 + j2 < j3)" by blast
    then show "cg_triangle t" by (simp add: tt)
  qed
  from couple_terms_rule[OF ct len all_tri]
  have sel: "selection_rule jn cl (map cg_j3 cg_terms)"
    and jc: "map (\<lambda>(a, b, j). j) jcoupling = map cg_j3 cg_terms" by simp_all
  from CoupledSpinState_new_Some[OF st] s
  have sj: "cs_j s = Num j3"
    and sc: "cs_coupled_jn s = map (\<lambda>(a, b, j). j) (map (\<lambda>(a, b, j). (a, b, Num j)) (butlast jcoupling))"
    by simp_all
  have "map num (cs_coupled_jn s) = map (\<lambda>(a, b, j). j) (butlast jcoupling)"
    unfolding sc by (simp add: comp_def case_prod_beta)
  also have "\<dots> = butlast (map (\<lambda>(a, b, j). j) jcoupling)" by (simp add: map_butlast)
  also have "\<dots> = butlast (map cg_j3 cg_terms)" by (simp only: jc)
  finally have "map num (cs_coupled_jn s) @ [num (cs_j s)] =
      butlast (map cg_j3 cg_terms) @ [last (map cg_j3 cg_terms)]"
    using ne lst by (simp add: sj last_map)
  also have "\<dots> = map cg_j3 cg_terms" using ne by simp
  finally show ?thesis using sel by simp
qed

lemma couple_config_loop_mem:
  assumes "couple_config_loop cg cls jn mn cl diff_max cfgs diff = Inr ts"
    and "t \<in> set ts"
  shows "\<exists>dl tms. length dl = length cl
           \<and> couple_config_term cg cls jn mn cl diff_max dl = Inr tms \<and> t \<in> set tms"
  using assms
proof (induction cfgs arbitrary: diff ts)
  case Nil
  then show ?case by simp
next
  case (Cons config_num rest)
  let ?dl = "decode_config config_num (length cl) diff"
  from Cons.prems(1) obtain tms diff' tss where
    tm: "couple_config_term cg cls jn mn cl diff_max ?dl = Inr tms"
    and rec: "couple_config_loop cg cls jn mn cl diff_max rest diff' = Inr tss"
    and ts: "ts = tms @ tss"
    by (auto simp: Let_def ebind_Inr)
  from Cons.prems(2) ts have "t \<in> set tms \<or> t \<in> set tss" by simp
  then show ?case
  proof
    assume "t \<in> set tms"
    with tm decode_config_length[of config_num "length cl" diff] show ?thesis by blast
  next
    assume "t \<in> set tss"
    from Cons.IH[OF rec this] show ?thesis .
  qed
qed

subsection \<open>The enumeration for three states \<open>|1,0>\<close>\<close>

lemma upto_03: "[0..3::int] = [0, 1, 2, 3]"
  by code_simp

lemma count2_vals: "count (Suc (Suc 0)) 0 = 1" "count (Suc (Suc 0)) 1 = 2"
  "count (Suc (Suc 0)) 2 = 3" "count (Suc (Suc 0)) 3 = 4"
  by code_simp+

lemma dec_pairs:
  "decode_config 0 (Suc (Suc 0)) 0 = [0, 0]"
  "decode_config 0 (Suc (Suc 0)) 1 = [0, 1]"
  "decode_config 1 (Suc (Suc 0)) 1 = [1, 0]"
  "decode_config 0 (Suc (Suc 0)) 2 = [0, 2]"
  "decode_config 1 (Suc (Suc 0)) 2 = [1, 1]"
  "decode_config 2 (Suc (Suc 0)) 1 = [2, 0]"
  "decode_config 0 (Suc (Suc 0)) 3 = [0, 3]"
  "decode_config 1 (Suc (Suc 0)) 3 = [1, 2]"
  "decode_config 2 (Suc (Suc 0)) 2 = [2, 0]"
  "decode_config 3 (Suc (Suc 0)) 0 = [3, 0]"
  by code_simp+

lemma couple_config_term_111:
  "couple_config_term cg cls [1, 1, 1] [0, 0, 0] [([1], [2]), ([1, 2], [3])] [2, 3] [d1, d2] =
     (if 2 < d1 \<or> 3 < d2 then Inr []
      else Inr [(cg 1 0 1 0 (2 - of_int d1) 0 * cg (2 - of_int d1) 0 1 0 (3 - of_int d1 - of_int d2) 0,
                 CoupledState cls (Num (3 - of_int d1 - of_int d2)) (Num 0) [Num 1, Num 1, Num 1]
                   [Num (2 - of_int d1)] [([1], [2])])])"
  by (simp add: couple_config_term_def py_get_def py_set_def CoupledSpinState_new_def
        build_coupled_def)

lemma ebind_Inr_id: "ebind x Inr = x"
  by (cases x) simp_all

lemma couple_config_loop_111:
  "couple_config_loop cg cls [1, 1, 1] [0, 0, 0] [([1], [2]), ([1, 2], [3])] [2, 3] (c # cs) diff =
     (case decode_config c (Suc (Suc 0)) diff of
        [d1, d2] \<Rightarrow>
          (if 2 < d1 \<or> 3 < d2
           then couple_config_loop cg cls [1, 1, 1] [0, 0, 0] [([1], [2]), ([1, 2], [3])] [2, 3] cs diff
           else ebind (couple_config_loop cg cls [1, 1, 1] [0, 0, 0] [([1], [2]), ([1, 2], [3])]
                         [2, 3] cs d2)
                  (\<lambda>tss. Inr ((cg 1 0 1 0 (2 - of_int d1) 0
                                  * cg (2 - of_int d1) 0 1 0 (3 - of_int d1 - of_int d2) 0,
                                CoupledState cls (Num (3 - of_int d1 - of_int d2)) (Num 0)
                                  [Num 1, Num 1, Num 1] [Num (2 - of_int d1)] [([1], [2])]) # tss)))
      | _ \<Rightarrow> Inl IndexError)"
proof -
  obtain d1 d2 where d: "decode_config c (Suc (Suc 0)) diff = [d1, d2]"
    using decode_config_length[of c "Suc (Suc 0)" diff]
    by (auto simp: length_Suc_conv)
  show ?thesis
    by (cases "2 < d1 \<or> 3 < d2")
       (simp_all add: Let_def d couple_config_term_111 rebound_diff_def ebind_Inr_id)
qed

lemma loop_Nil: "couple_config_loop cg cls jn mn cl dm [] diff = Inr []"
  by simp

lemma couple_1_0_cubed:
  "couple cg [State JzKet (Num 1) (Num 0), State JzKet (Num 1) (Num 0), State JzKet (Num 1) (Num 0)]
      None =
   Inr (CoupledSum
     [(cg 1 0 1 0 2 0 * cg 2 0 1 0 3 0,
       CoupledState JzKetCoupled (Num 3) (Num 0) [Num 1, Num 1, Num 1] [Num 2] [([1], [2])]),
      (cg 1 0 1 0 2 0 * cg 2 0 1 0 2 0,
       CoupledState JzKetCoupled (Num 2) (Num 0) [Num 1, Num 1, Num 1] [Num 2] [([1], [2])]),
      (cg 1 0 1 0 1 0 * cg 1 0 1 0 2 0,
       CoupledState JzKetCoupled (Num 2) (Num 0) [Num 1, Num 1, Num 1] [Num 1] [([1], [2])]),
      (cg 1 0 1 0 2 0 * cg 2 0 1 0 1 0,
       CoupledState JzKetCoupled (Num 1) (Num 0) [Num 1, Num 1, Num 1] [Num 2] [([1], [2])]),
      (cg 1 0 1 0 1 0 * cg 1 0 1 0 1 0,
       CoupledState JzKetCoupled (Num 1) (Num 0) [Num 1, Num 1, Num 1] [Num 1] [([1], [2])]),
      (cg 1 0 1 0 0 0 * cg 0 0 1 0 1 0,
       CoupledState JzKetCoupled (Num 1) (Num 0) [Num 1, Num 1, Num 1] [Num 0] [([1], [2])]),
      (cg 1 0 1 0 2 0 * cg 2 0 1 0 0 0,
       CoupledState JzKetCoupled (Num 0) (Num 0) [Num 1, Num 1, Num 1] [Num 2] [([1], [2])]),
      (cg 1 0 1 0 1 0 * cg 1 0 1 0 0 0,
       CoupledState JzKetCoupled (Num 0) (Num 0) [Num 1, Num 1, Num 1] [Num 1] [([1], [2])]),
      (cg 1 0 1 0 0 0 * cg 0 0 1 0 1 0,
       CoupledState JzKetCoupled (Num 1) (Num 0) [Num 1, Num 1, Num 1] [Num 0] [([1], [2])])])"
proof -
  let ?loop = "couple_config_loop cg JzKetCoupled [1, 1, 1] [0, 0, 0] [([1], [2]), ([1, 2], [3])] [2, 3]"
  have r0: "?loop [0] 0 = Inr [(cg 1 0 1 0 2 0 * cg 2 0 1 0 3 0,
       CoupledState JzKetCoupled (Num 3) (Num 0) [Num 1, Num 1, Num 1] [Num 2] [([1], [2])])]"
    by (simp add: couple_config_loop_111 loop_Nil dec_pairs del: couple_config_loop.simps)
  have r1: "?loop [0, 1] 1 = Inr [(cg 1 0 1 0 2 0 * cg 2 0 1 0 2 0,
       CoupledState JzKetCoupled (Num 2) (Num 0) [Num 1, Num 1, Num 1] [Num 2] [([1], [2])]),
      (cg 1 0 1 0 1 0 * cg 1 0 1 0 2 0,
       CoupledState JzKetCoupled (Num 2) (Num 0) [Num 1, Num 1, Num 1] [Num 1] [([1], [2])])]"
    by (simp add: couple_config_loop_111 loop_Nil dec_pairs del: couple_config_loop.simps)
  have r2: "?loop [0, 1, 2] 2 = Inr [(cg 1 0 1 0 2 0 * cg 2 0 1 0 1 0,
       CoupledState JzKetCoupled (Num 1) (Num 0) [Num 1, Num 1, Num 1] [Num 2] [([1], [2])]),
      (cg 1 0 1 0 1 0 * cg 1 0 1 0 1 0,
       CoupledState JzKetCoupled (Num 1) (Num 0) [Num 1, Num 1, Num 1] [Num 1] [([1], [2])]),
      (cg 1 0 1 0 0 0 * cg 0 0 1 0 1 0,
       CoupledState JzKetCoupled (Num 1) (Num 0) [Num 1, Num 1, Num 1] [Num 0] [([1], [2])])]"
    by (simp add: couple_config_loop_111 loop_Nil dec_pairs del: couple_config_loop.simps)
  have r3: "?loop [0, 1, 2, 3] 3 = Inr [(cg 1 0 1 0 2 0 * cg 2 0 1 0 0 0,
       CoupledState JzKetCoupled (Num 0) (Num 0) [Num 1, Num 1, Num 1] [Num 2] [([1], [2])]),
      (cg 1 0 1 0 1 0 * cg 1 0 1 0 0 0,
       CoupledState JzKetCoupled (Num 0) (Num 0) [Num 1, Num 1, Num 1] [Num 1] [([1], [2])]),
      (cg 1 0 1 0 0 0 * cg 0 0 1 0 1 0,
       CoupledState JzKetCoupled (Num 1) (Num 0) [Num 1, Num 1, Num 1] [Num 0] [([1], [2])])]"
    by (simp add: couple_config_loop_111 loop_Nil dec_pairs del: couple_config_loop.simps)
  have up: "[0..0::int] = [0]" "[0..1::int] = [0, 1]" "[0..2::int] = [0, 1, 2]"
    by (simp_all add: upto_01 upto_02)
  show ?thesis
    by (simp add: couple_def djl jtl bcl3 couple_numeric_def py_get_def py_set_def upto_03 count2_vals up
          upto_03 r0 r1 r2 r3 del: couple_config_loop.simps)
qed

lemma CG_1_0_1_0_0_0: "CG_doit 1 0 1 0 0 0 = - (1 / sqrt 3)"
  by (simp add: CG_doit_def nonneg_int_def rfact_def fact_numeral real_sqrt_mult real_sqrt_divide
        upt_rec numeral_eq_Suc)

lemma CG_0_0_1_0_1_0: "CG_doit 0 0 1 0 1 0 = 1"
  by (simp add: CG_doit_def nonneg_int_def rfact_def fact_numeral real_sqrt_mult real_sqrt_divide
        upt_rec numeral_eq_Suc)

text \<open>
  C3: in the sum that \<^verbatim>\<open>couple\<close> returns for a numeric tensor product, every term with
  a non-zero coefficient obeys the selection rule at every merge of the coupling scheme:
  its \<open>j3\<close> lies in \<open>[|j1 - j2|, j1 + j2]\<close>. The enumeration itself only bounds \<open>j3\<close>
  from above; below \<open>|j1 - j2|\<close> a term is built and vanishes because the Clebsch-Gordan
  evaluator returns zero outside the triangle, which is the hypothesis on \<open>cg\<close>.
\<close>

theorem couple_selection_rule:
  assumes res: "couple cg states scheme = Inr (CoupledSum ts)"
    and cl: "build_coupling_list (length states)
               (case scheme of None \<Rightarrow> default_jcoupling_list (length states) | Some l \<Rightarrow> l)
             = Inr coupling_list"
    and tri: "\<forall>j1 m1 j2 m2 j3 m3. j3 < \<bar>j1 - j2\<bar> \<or> j1 + j2 < j3 \<longrightarrow> cg j1 m1 j2 m2 j3 m3 = 0"
    and mem: "(c, s) \<in> set ts" and nz: "c \<noteq> 0"
  shows "selection_rule (map (\<lambda>s. num (state_j s)) states) coupling_list
           (map num (cs_coupled_jn s) @ [num (cs_j s)])"
proof -
  let ?jn = "map (\<lambda>s. num (state_j s)) states"
  let ?mn = "map (\<lambda>s. num (state_m s)) states"
  let ?cls = "coupled_class (state_class (hd states))"
  let ?row = "\<lambda>diff_max diff.
            couple_config_loop cg ?cls ?jn ?mn coupling_list diff_max
              [0..count (length coupling_list) diff - 1] diff"
  from res cl have num: "couple_numeric cg ?cls ?jn ?mn coupling_list = Inr ts"
    by (auto simp: couple_def Let_def ebind_Inr couple_symbolic_not_sum split: if_splits)
  then obtain diff_max top where
    r1: "(if (top::rat) + 1 \<noteq> of_int \<lfloor>top + 1\<rfloor> then Inl (TypeError ''range'' [])
          else ebind (emap (?row diff_max) [0..\<lfloor>top + 1\<rfloor> - 1]) (\<lambda>ts. Inr (concat ts))) = Inr ts"
    unfolding couple_numeric_def by (simp only: ebind_Inr) blast
  from if_Inl_Inr[OF r1]
  have "ebind (emap (?row diff_max) [0..\<lfloor>top + 1\<rfloor> - 1]) (\<lambda>ts. Inr (concat ts)) = Inr ts" ..
  then obtain tss where e1: "emap (?row diff_max) [0..\<lfloor>top + 1\<rfloor> - 1] = Inr tss"
    and ts: "ts = concat tss"
    by (auto simp only: ebind_Inr sum.inject)
  from emap_concat_mem[OF e1] mem ts obtain diff l where
    l: "?row diff_max diff = Inr l" and inl: "(c, s) \<in> set l"
    by blast
  from couple_config_loop_mem[OF l inl] obtain dl tms where
    len: "length dl = length coupling_list"
    and t: "couple_config_term cg ?cls ?jn ?mn coupling_list diff_max dl = Inr tms"
    and intms: "(c, s) \<in> set tms" by blast
  show ?thesis
    by (rule couple_config_term_rule[OF t len tri intms nz])
qed

theorem couple_selection_rule_witness:
  "couple CG_doit
     [State JzKet (Num 1) (Num 0), State JzKet (Num 1) (Num 0), State JzKet (Num 1) (Num 0)] None =
   Inr (CoupledSum
     [(CG_doit 1 0 1 0 2 0 * CG_doit 2 0 1 0 3 0,
       CoupledState JzKetCoupled (Num 3) (Num 0) [Num 1, Num 1, Num 1] [Num 2] [([1], [2])]),
      (CG_doit 1 0 1 0 2 0 * CG_doit 2 0 1 0 2 0,
       CoupledState JzKetCoupled (Num 2) (Num 0) [Num 1, Num 1, Num 1] [Num 2] [([1], [2])]),
      (CG_doit 1 0 1 0 1 0 * CG_doit 1 0 1 0 2 0,
       CoupledState JzKetCoupled (Num 2) (Num 0) [Num 1, Num 1, Num 1] [Num 1] [([1], [2])]),
      (CG_doit 1 0 1 0 2 0 * CG_doit 2 0 1 0 1 0,
       CoupledState JzKetCoupled (Num 1) (Num 0) [Num 1, Num 1, Num 1] [Num 2] [([1], [2])]),
      (CG_doit 1 0 1 0 1 0 * CG_doit 1 0 1 0 1 0,
       CoupledState JzKetCoupled (Num 1) (Num 0) [Num 1, Num 1, Num 1] [Num 1] [([1], [2])]),
      (CG_doit 1 0 1 0 0 0 * CG_doit 0 0 1 0 1 0,
       CoupledState JzKetCoupled (Num 1) (Num 0) [Num 1, Num 1, Num 1] [Num 0] [([1], [2])]),
      (CG_doit 1 0 1 0 2 0 * CG_doit 2 0 1 0 0 0,
       CoupledState JzKetCoupled (Num 0) (Num 0) [Num 1, Num 1, Num 1] [Num 2] [([1], [2])]),
      (CG_doit 1 0 1 0 1 0 * CG_doit 1 0 1 0 0 0,
       CoupledState JzKetCoupled (Num 0) (Num 0) [Num 1, Num 1, Num 1] [Num 1] [([1], [2])]),
      (CG_doit 1 0 1 0 0 0 * CG_doit 0 0 1 0 1 0,
       CoupledState JzKetCoupled (Num 1) (Num 0) [Num 1, Num 1, Num 1] [Num 0] [([1], [2])])])
   \<and> CG_doit 1 0 1 0 0 0 * CG_doit 0 0 1 0 1 0 \<noteq> 0
   \<and> selection_rule [1, 1, 1] [([1], [2]), ([1, 2], [3])] [0, 1]"
proof -
  let ?states = "[State JzKet (Num 1) (Num 0), State JzKet (Num 1) (Num 0),
                  State JzKet (Num 1) (Num 0)]"
  let ?s = "CoupledState JzKetCoupled (Num 1) (Num 0) [Num 1, Num 1, Num 1] [Num 0] [([1], [2])]"
  let ?c = "CG_doit 1 0 1 0 0 0 * CG_doit 0 0 1 0 1 0"
  note res = couple_1_0_cubed [of CG_doit]
  have cl: "build_coupling_list (length ?states)
              (case None of None \<Rightarrow> default_jcoupling_list (length ?states) | Some l \<Rightarrow> l)
            = Inr [([1], [2]), ([1, 2], [3])]"
    by (simp add: djl bcl3)
  have tri: "\<forall>j1 m1 j2 m2 j3 m3. j3 < \<bar>j1 - j2\<bar> \<or> j1 + j2 < j3
               \<longrightarrow> CG_doit j1 m1 j2 m2 j3 m3 = 0"
    using CG_doit_triangle by blast
  have nz: "?c \<noteq> 0"
    by (simp add: CG_1_0_1_0_0_0 CG_0_0_1_0_1_0)
  have "selection_rule (map (\<lambda>s. num (state_j s)) ?states) [([1], [2]), ([1, 2], [3])]
          (map num (cs_coupled_jn ?s) @ [num (cs_j ?s)])"
    by (rule couple_selection_rule [OF res cl tri _ nz]) simp
  then have "selection_rule [1, 1, 1] [([1], [2]), ([1, 2], [3])] [0, 1]"
    by (simp del: selection_rule.simps)
  with res nz show ?thesis by blast
qed

section \<open>The round trip of coupling and uncoupling\<close>

lemma uncoupled_coupled [simp]: "uncoupled_class (coupled_class c) = c"
  by (cases c) simp_all


lemma floor1: "\<lfloor>1::rat\<rfloor> = 1" by simp



lemma py_get_simps:
  "py_get (x # xs) 0 = Inr x"
  "py_get [a, b] 1 = Inr b" "py_get [a, b] (- 1) = Inr b"
  "py_get [a, b, c] 1 = Inr b" "py_get [a, b, c] 2 = Inr c" "py_get [a, b, c] (- 1) = Inr c"
  "py_get [a, b, c, d] 1 = Inr b" "py_get [a, b, c, d] 2 = Inr c" "py_get [a, b, c, d] 3 = Inr d"
  "py_get [a, b, c, d] (- 1) = Inr d"
  by (simp_all add: py_get_def)

lemma py_set_simps:
  "py_set (x # xs) 0 v = Inr (v # xs)"
  by (simp_all add: py_set_def)





subsection \<open>Stretched products\<close>



subsection \<open>Counting and decoding the configurations of one and two parts\<close>









lemma prod_list_upto_snoc: "a \<le> b + 1 \<Longrightarrow> prod_list [a..b + 1] = prod_list [a..b] * (b + 1)"
  by (simp add: upto_rec2)


subsection \<open>Coefficients of a list of terms\<close>

lemma coeff_of_Nil [simp]: "coeff_of [] x = 0"
  by (simp add: coeff_of_def)







subsection \<open>Coupling and uncoupling a pair\<close>




















end
